theory Spec2Isabelle
  imports Complex_Main
begin

section \<open>Data model\<close>

text \<open>
  The model follows the application component (\<open>App\<close>), the clothing panel
  (\<open>TryOnPanel\<close>) and the generation service (\<open>geminiService\<close>).
  JavaScript strings are modelled as \<open>string\<close>: the bytes of their UTF-8 encoding. A
  \<open>File\<close> is its name, its declared media type and its content.
\<close>

record File =
  file_name :: string
  file_type :: string
  file_data :: string

datatype ClothingCategory = Top | Outerwear | Bottoms | Shoes | Hat | Sunglasses

datatype item_source = Upload | Prompt

text \<open>\<open>value: File | string | null\<close>\<close>

datatype item_value = FileValue File | TextValue string | NullValue

text \<open>
  A JavaScript number: a finite binary64 value, given as the rational it denotes, an
  infinity, or NaN. The two zeros are not told apart (nothing here divides by a computed
  zero or prints its sign).
\<close>

datatype number = Finite rat | PosInfinity | NegInfinity | NaN

text \<open>\<open>hotspot: { x: number, y: number } | null\<close>\<close>

datatype hotspot = Hotspot (hotspot_x: number) (hotspot_y: number)

record ClothingItem =
  item_id :: nat
  item_type :: ClothingCategory
  item_source :: item_source
  item_value :: item_value
  item_hotspot :: "hotspot option"

text \<open>
  A value produced by \<open>JSON.parse\<close>. An object is the list of its own properties
  (distinct keys).
\<close>

datatype json =
  JNull | JBool bool | JNumber real | JString string | JArray "json list"
  | JObject "(string \<times> json) list"

text \<open>
  \<open>variationResults: {images: string[], captions: string[]} | null\<close>. An element of
  \<open>images\<close> is \<open>None\<close> where the JavaScript array has a hole (an index assignment past
  the end leaves holes, which read as \<open>undefined\<close>). The captions are what the caption
  service returned: the elements of a parsed JSON array, which the code does not check
  to be strings.
\<close>

record variation_results =
  images :: "string option list"
  captions :: "json list"

record refinement_state =
  isOpen :: bool
  imageIndex :: "nat option"
  imageSrc :: "string option"
  caption :: "json option"

record app_state =
  appStarted :: bool
  history :: "File list"
  historyIndex :: int
  isLoading :: bool
  error :: "string option"
  displayHotspot :: "hotspot option"
  isComparing :: bool
  clothingItems :: "ClothingItem list"
  activeClothingItemId :: "nat option"
  variationResults :: "variation_results option"
  loadingMessage :: string
  isOutfitApplied :: bool
  isRefining :: bool
  refinementState :: refinement_state

definition closed_refinement :: refinement_state where
  "closed_refinement =
     \<lparr>isOpen = False, imageIndex = None, imageSrc = None, caption = None\<rparr>"

definition default_loading_message :: string where
  "default_loading_message = ''AI is working its magic...''"

text \<open>The initial values of the \<open>useState\<close> hooks of \<open>App\<close>.\<close>

definition initial_state :: app_state where
  "initial_state =
     \<lparr>appStarted = False, history = [], historyIndex = - 1, isLoading = False,
      error = None, displayHotspot = None, isComparing = False, clothingItems = [],
      activeClothingItemId = None, variationResults = None,
      loadingMessage = default_loading_message, isOutfitApplied = False,
      isRefining = False, refinementState = closed_refinement\<rparr>"

subsection \<open>The remote model's messages\<close>

record inline_data =
  mimeType :: string
  data :: string

text \<open>A part of a request or of a response: an inline image, a text, or both absent.\<close>

record part =
  part_inlineData :: "inline_data option"
  part_text :: "string option"

record content =
  parts :: "part list option"

record candidate =
  cand_content :: "content option"
  finishReason :: "string option"

record prompt_feedback =
  blockReason :: "string option"
  blockReasonMessage :: "string option"

record GenerateContentResponse =
  promptFeedback :: "prompt_feedback option"
  candidates :: "candidate list option"
  response_text :: "string option"

text \<open>
  A call of \<open>ai.models.generateContent\<close>: the model identifier with a list of parts, or
  (captions) with a plain prompt and the fixed JSON response schema.
\<close>

datatype request = PartsRequest string "part list" | JsonRequest string string

subsection \<open>Failures\<close>

text \<open>What a browser or library function outside the repository throws or rejects with.\<close>

datatype thrown = JsError string | NonError

text \<open>
  One constructor for each place where the service or a helper throws. All of them are
  \<open>Error\<close> objects in the source, told apart by their message, except the rejection of a
  \<open>FileReader\<close>, which passes the reader's event on.
\<close>

datatype failure =
    ConversionError string thrown
  | FileReaderError
  | InvalidDataURLError
  | MimeTypeError
  | BlockedError string "string option"
  | GenerationStoppedError string string
  | NoImageReturnedError string "string option"
  | NoValidItemsError
  | NoContextsError
  | RemoteError thrown
  | AtobError thrown
  | TypeErrorThrown string

text \<open>
  The outside world a call runs in: the browser's image conversion, file reader and base64
  decoder, the remote model, the clock, \<open>JSON.parse\<close>, the order in which the
  sub-requests of a batch settle, the engine's printing of a number that is not a whole
  number below \<open>2^53\<close>, and the message of the engine's \<open>TypeError\<close> for a method call
  on \<open>undefined\<close>.
\<close>

record env =
  convertImageToPNG :: "File \<Rightarrow> thrown + File"
  readAsDataURL :: "File \<Rightarrow> string option"
  generateContent :: "request \<Rightarrow> thrown + GenerateContentResponse"
  atob :: "string \<Rightarrow> thrown + string"
  now :: nat
  JSON_parse :: "string \<Rightarrow> json option"
  settleOrder :: "nat list"
  numberToString :: "rat \<Rightarrow> string"
  typeErrorMessage :: string

section \<open>JavaScript primitives\<close>

text \<open>\<open>xs.slice(0, e)\<close>: a negative end counts from the end of the array.\<close>

definition js_slice0 :: "'a list \<Rightarrow> int \<Rightarrow> 'a list" where
  "js_slice0 xs e =
     (let n = int (length xs);
          k = (if e < 0 then max (n + e) 0 else min e n)
      in take (nat k) xs)"

text \<open>\<open>xs[i] ?? null\<close>: an index outside the array reads as \<open>undefined\<close>.\<close>

definition js_index :: "'a list \<Rightarrow> int \<Rightarrow> 'a option" where
  "js_index xs i = (if 0 \<le> i \<and> i < int (length xs) then Some (xs ! nat i) else None)"

text \<open>Reading \<open>xs[i]\<close> of an array with holes: a hole and an index past the end are \<open>undefined\<close>.\<close>

definition js_get :: "'a option list \<Rightarrow> nat \<Rightarrow> 'a option" where
  "js_get xs i = (if i < length xs then xs ! i else None)"

text \<open>\<open>xs[i] = v\<close>: an index past the end extends the array, leaving holes.\<close>

definition js_set :: "'a option list \<Rightarrow> nat \<Rightarrow> 'a \<Rightarrow> 'a option list" where
  "js_set xs i v =
     (if i < length xs then xs[i := Some v]
      else xs @ replicate (i - length xs) None @ [Some v])"

text \<open>Truthiness of an optional string: present and not empty.\<close>

definition truthy_string :: "string option \<Rightarrow> bool" where
  "truthy_string v = (case v of None \<Rightarrow> False | Some t \<Rightarrow> t \<noteq> [])"

fun js_truthy :: "json \<Rightarrow> bool" where
  "js_truthy JNull = False"
| "js_truthy (JBool b) = b"
| "js_truthy (JNumber r) = (r \<noteq> 0)"
| "js_truthy (JString t) = (t \<noteq> [])"
| "js_truthy (JArray vs) = True"
| "js_truthy (JObject kvs) = True"

text \<open>
  The white space and line terminator characters of JavaScript, each as its UTF-8 bytes:
  TAB, LF, VT, FF, CR, SPACE, U+00A0, U+1680, U+2000 to U+200A, U+2028, U+2029, U+202F,
  U+205F, U+3000 and U+FEFF.
\<close>

definition js_whitespace :: "string list" where
  "js_whitespace =
     [[CHR 0x09], [CHR 0x0A], [CHR 0x0B], [CHR 0x0C], [CHR 0x0D], [CHR 0x20],
      [CHR 0xC2, CHR 0xA0],
      [CHR 0xE1, CHR 0x9A, CHR 0x80],
      [CHR 0xE2, CHR 0x80, CHR 0x80], [CHR 0xE2, CHR 0x80, CHR 0x81],
      [CHR 0xE2, CHR 0x80, CHR 0x82], [CHR 0xE2, CHR 0x80, CHR 0x83],
      [CHR 0xE2, CHR 0x80, CHR 0x84], [CHR 0xE2, CHR 0x80, CHR 0x85],
      [CHR 0xE2, CHR 0x80, CHR 0x86], [CHR 0xE2, CHR 0x80, CHR 0x87],
      [CHR 0xE2, CHR 0x80, CHR 0x88], [CHR 0xE2, CHR 0x80, CHR 0x89],
      [CHR 0xE2, CHR 0x80, CHR 0x8A],
      [CHR 0xE2, CHR 0x80, CHR 0xA8], [CHR 0xE2, CHR 0x80, CHR 0xA9],
      [CHR 0xE2, CHR 0x80, CHR 0xAF],
      [CHR 0xE2, CHR 0x81, CHR 0x9F],
      [CHR 0xE3, CHR 0x80, CHR 0x80],
      [CHR 0xEF, CHR 0xBB, CHR 0xBF]]"

text \<open>
  Removing, from the front of a text, every leading occurrence of one of the given byte
  sequences.
\<close>

function strip_leading :: "string list \<Rightarrow> string \<Rightarrow> string" where
  "strip_leading seqs t =
     (case List.find (\<lambda>w. w \<noteq> [] \<and> take (length w) t = w) seqs of
        None \<Rightarrow> t
      | Some w \<Rightarrow> strip_leading seqs (drop (length w) t))"
  by pat_completeness auto
termination
proof (relation "measure (\<lambda>(seqs, t). length t)")
  show "wf (measure (\<lambda>(seqs, t). length t))"
    by simp
next
  fix seqs :: "string list" and t w :: string
  assume "List.find (\<lambda>w. w \<noteq> [] \<and> take (length w) t = w) seqs = Some w"
  then have w: "w \<noteq> []" "take (length w) t = w"
    by (auto simp: find_Some_iff)
  then have "t \<noteq> []"
    by auto
  with w show "((seqs, drop (length w) t), (seqs, t)) \<in> measure (\<lambda>(seqs, t). length t)"
    by simp
qed

declare strip_leading.simps [simp del]

text \<open>
  \<open>t.trim()\<close>: white space and line terminators are removed from both ends. A text is
  the UTF-8 encoding of the JavaScript string, so a character at either end is found as
  its byte sequence.
\<close>

definition js_trim :: "string \<Rightarrow> string" where
  "js_trim t =
     rev (strip_leading (map rev js_whitespace) (rev (strip_leading js_whitespace t)))"

text \<open>\<open>t.split(sep)\<close> for a one-character separator: never the empty array.\<close>

fun js_split :: "char \<Rightarrow> string \<Rightarrow> string list" where
  "js_split sep [] = [[]]"
| "js_split sep (c # cs) =
     (if c = sep then [] # js_split sep cs
      else (case js_split sep cs of [] \<Rightarrow> [[c]] | p # ps \<Rightarrow> (c # p) # ps))"

text \<open>\<open>xs.join(sep)\<close>\<close>

fun js_join :: "string \<Rightarrow> string list \<Rightarrow> string" where
  "js_join sep [] = []"
| "js_join sep [t] = t"
| "js_join sep (t # u # us) = t @ sep @ js_join sep (u # us)"

definition newline :: string where
  "newline = [CHR 0x0A]"

definition dquote :: string where
  "dquote = [CHR 0x22]"

text \<open>A natural number in decimal, as a template literal prints an integer.\<close>

fun show_nat :: "nat \<Rightarrow> string" where
  "show_nat n =
     (if n < 10 then [''0123456789'' ! n]
      else show_nat (n div 10) @ [''0123456789'' ! (n mod 10)])"

declare show_nat.simps [simp del]

definition show_int :: "int \<Rightarrow> string" where
  "show_int i = (if i < 0 then CHR ''-'' # show_nat (nat (- i)) else show_nat (nat i))"

subsection \<open>Binary64 arithmetic\<close>

text \<open>The number of binary digits of a natural number.\<close>

fun bits :: "nat \<Rightarrow> nat" where
  "bits n = (if n = 0 then 0 else Suc (bits (n div 2)))"

declare bits.simps [simp del]

definition pow2 :: "int \<Rightarrow> rat" where
  "pow2 e = (if 0 \<le> e then 2 ^ nat e else 1 / 2 ^ nat (- e))"

text \<open>For a positive \<open>x\<close>, the exponent \<open>e\<close> with \<open>2^e \<le> x < 2^(e+1)\<close>.\<close>

definition binary_exponent :: "rat \<Rightarrow> int" where
  "binary_exponent x =
     (if 1 \<le> x then int (bits (nat \<lfloor>x\<rfloor>)) - 1
      else - int (bits (nat (\<lceil>1 / x\<rceil> - 1))))"

text \<open>The nearest integer, a tie going to the even one.\<close>

definition round_half_even :: "rat \<Rightarrow> int" where
  "round_half_even y =
     (let f = \<lfloor>y\<rfloor>; r = y - of_int f in
      if r < 1 / 2 then f
      else if 1 / 2 < r then f + 1
      else if even f then f else f + 1)"

text \<open>
  The binary64 result of an operation whose exact result is \<open>x\<close>: \<open>x\<close> rounded to the
  nearest number with a significand of 53 bits (to a multiple of \<open>2^-1074\<close> below the
  normal range), a tie going to the even significand; an infinity from \<open>2^1024\<close> on.
\<close>

definition to_binary64 :: "rat \<Rightarrow> number" where
  "to_binary64 x =
     (if x = 0 then Finite 0
      else
        (let e = max (binary_exponent \<bar>x\<bar>) (- 1022);
             u = pow2 (e - 52);
             r = of_int (round_half_even (\<bar>x\<bar> / u)) * u
         in if pow2 1024 \<le> r then (if 0 < x then PosInfinity else NegInfinity)
            else Finite (if 0 < x then r else - r)))"

fun number_negative :: "number \<Rightarrow> bool" where
  "number_negative (Finite a) = (a < 0)"
| "number_negative NegInfinity = True"
| "number_negative PosInfinity = False"
| "number_negative NaN = False"

text \<open>\<open>x * y\<close>\<close>

definition js_mul :: "number \<Rightarrow> number \<Rightarrow> number" where
  "js_mul x y =
     (case (x, y) of
        (Finite a, Finite b) \<Rightarrow> to_binary64 (a * b)
      | _ \<Rightarrow>
          if x = NaN \<or> y = NaN \<or> x = Finite 0 \<or> y = Finite 0 then NaN
          else if number_negative x = number_negative y then PosInfinity
          else NegInfinity)"

text \<open>\<open>n / d\<close> for two whole numbers that are not negative (sizes in pixels).\<close>

definition js_div_nat :: "nat \<Rightarrow> nat \<Rightarrow> number" where
  "js_div_nat n d =
     (if d = 0 then (if n = 0 then NaN else PosInfinity)
      else to_binary64 (of_nat n / of_nat d))"

text \<open>\<open>Math.round(x)\<close>: the nearest whole number, a tie going up.\<close>

fun Math_round :: "number \<Rightarrow> number" where
  "Math_round (Finite q) = Finite (of_int \<lfloor>q + 1 / 2\<rfloor>)"
| "Math_round PosInfinity = PosInfinity"
| "Math_round NegInfinity = NegInfinity"
| "Math_round NaN = NaN"

text \<open>
  A number in a template literal: a whole number below \<open>2^53\<close> in absolute value prints
  as its decimal digits; any other finite number prints as the engine's shortest
  round-trip form.
\<close>

definition show_number :: "env \<Rightarrow> number \<Rightarrow> string" where
  "show_number env x =
     (case x of
        Finite q \<Rightarrow>
          if of_int \<lfloor>q\<rfloor> = q \<and> \<bar>q\<bar> < 2 ^ 53 then show_int \<lfloor>q\<rfloor>
          else numberToString env q
      | PosInfinity \<Rightarrow> ''Infinity''
      | NegInfinity \<Rightarrow> ''-Infinity''
      | NaN \<Rightarrow> ''NaN'')"

subsection \<open>Data URLs, sequencing and promises\<close>

text \<open>
  The first group of the first match of \<open>/:(.*?);/\<close>: from the leftmost colon that is
  followed, with no line terminator in between, by a semicolon, the text up to the first
  such semicolon.
\<close>

text \<open>A line terminator (LF, CR, U+2028, U+2029) somewhere in a text.\<close>

fun has_line_terminator :: "string \<Rightarrow> bool" where
  "has_line_terminator [] = False"
| "has_line_terminator (c # cs) =
     (c = CHR 0x0A \<or> c = CHR 0x0D
      \<or> take 3 (c # cs) = [CHR 0xE2, CHR 0x80, CHR 0xA8]
      \<or> take 3 (c # cs) = [CHR 0xE2, CHR 0x80, CHR 0xA9]
      \<or> has_line_terminator cs)"

definition until_semicolon :: "string \<Rightarrow> string option" where
  "until_semicolon cs =
     (let m = takeWhile (\<lambda>c. c \<noteq> CHR '';'') cs in
      if length m = length cs then None
      else if has_line_terminator m then None
      else Some m)"

fun mime_match :: "string \<Rightarrow> string option" where
  "mime_match [] = None"
| "mime_match (c # cs) =
     (if c = CHR '':'' then
        (case until_semicolon cs of Some m \<Rightarrow> Some m | None \<Rightarrow> mime_match cs)
      else mime_match cs)"

text \<open>Sequencing of steps that may throw: the first failure ends the block.\<close>

definition and_then :: "'e + 'a \<Rightarrow> ('a \<Rightarrow> 'e + 'b) \<Rightarrow> 'e + 'b" where
  "and_then r k = (case r of Inl e \<Rightarrow> Inl e | Inr v \<Rightarrow> k v)"

text \<open>
  \<open>Promise.all\<close> over sub-requests that have all been started: it rejects with the
  rejection that settles first (by the settle order, then by position) and otherwise
  fulfils with all the results in the order of the promises.
\<close>

definition promise_all :: "nat list \<Rightarrow> (failure + 'a) list \<Rightarrow> failure + 'a list" where
  "promise_all order rs =
     (case List.find (\<lambda>i. i < length rs \<and> isl (rs ! i)) (order @ [0..<length rs]) of
        Some i \<Rightarrow> Inl (projl (rs ! i))
      | None \<Rightarrow> Inr (map projr rs))"

section \<open>The generation service\<close>

text \<open>The message of a thrown value, for \<open>err instanceof Error ? err.message : ...\<close>.\<close>

fun thrown_message :: "thrown \<Rightarrow> string option" where
  "thrown_message (JsError m) = Some m"
| "thrown_message NonError = None"

fun message_of :: "failure \<Rightarrow> string option" where
  "message_of (ConversionError ty th) =
     Some (''The file format ('' @ ty @ '') is not supported and could not be converted. ''
       @ (case thrown_message th of Some m \<Rightarrow> m
          | None \<Rightarrow> ''An unknown error occurred during conversion.''))"
| "message_of FileReaderError = None"
| "message_of InvalidDataURLError = Some ''Invalid data URL''"
| "message_of MimeTypeError = Some ''Could not parse MIME type from data URL''"
| "message_of (BlockedError reason msg) =
     Some (''Request was blocked. Reason: '' @ reason @ ''. ''
       @ (case msg of Some m \<Rightarrow> m | None \<Rightarrow> ''''))"
| "message_of (GenerationStoppedError ctx reason) =
     Some (''Image generation for '' @ ctx @ '' stopped unexpectedly. Reason: '' @ reason
       @ ''. This often relates to safety settings.'')"
| "message_of (NoImageReturnedError ctx textFeedback) =
     Some (''The AI model did not return an image for the '' @ ctx @ ''. ''
       @ (case textFeedback of
            Some t \<Rightarrow> ''The model responded with text: '' @ dquote @ t @ dquote
          | None \<Rightarrow> ''This can happen due to safety filters or if the request is too complex. Please try rephrasing your prompt to be more direct.''))"
| "message_of NoValidItemsError =
     Some ''No valid clothing items were provided to generate an outfit.''"
| "message_of NoContextsError =
     Some ''generateVariations requires at least 1 context string.''"
| "message_of (RemoteError th) = thrown_message th"
| "message_of (AtobError th) = thrown_message th"
| "message_of (TypeErrorThrown m) = Some m"

definition error_message :: "failure \<Rightarrow> string" where
  "error_message e =
     (case message_of e of Some m \<Rightarrow> m | None \<Rightarrow> ''An unknown error occurred.'')"

definition SUPPORTED_MIME_TYPES :: "string list" where
  "SUPPORTED_MIME_TYPES =
     [''image/png'', ''image/jpeg'', ''image/webp'', ''image/heic'', ''image/heif'']"

text \<open>The common tail of \<open>fileToPart\<close> and \<open>dataURLtoFile\<close>: media type and payload.\<close>

definition parse_data_url :: "string \<Rightarrow> failure + (string \<times> string)" where
  "parse_data_url dataUrl =
     (let arr = js_split (CHR '','') dataUrl in
      if length arr < 2 then Inl InvalidDataURLError
      else (case mime_match (arr ! 0) of
              None \<Rightarrow> Inl MimeTypeError
            | Some m \<Rightarrow> if m = [] then Inl MimeTypeError else Inr (m, arr ! 1)))"

definition fileToPart :: "env \<Rightarrow> File \<Rightarrow> failure + inline_data" where
  "fileToPart env file =
     and_then
       (if file_type file \<in> set SUPPORTED_MIME_TYPES then Inr file
        else (case convertImageToPNG env file of
                Inl th \<Rightarrow> Inl (ConversionError (file_type file) th)
              | Inr converted \<Rightarrow> Inr converted))
       (\<lambda>processedFile.
          (case readAsDataURL env processedFile of
             None \<Rightarrow> Inl FileReaderError
           | Some dataUrl \<Rightarrow>
               and_then (parse_data_url dataUrl)
                 (\<lambda>(m, d). Inr \<lparr>mimeType = m, data = d\<rparr>)))"

text \<open>
  The type of a file made by \<open>new File(bits, name, {type})\<close>: in ASCII lower case, or
  empty when the given type has a character outside the printable ASCII range.
\<close>

definition ascii_lower :: "char \<Rightarrow> char" where
  "ascii_lower c =
     (if 65 \<le> (of_char c :: nat) \<and> (of_char c :: nat) \<le> 90
      then char_of ((of_char c :: nat) + 32) else c)"

definition blob_type :: "string \<Rightarrow> string" where
  "blob_type t =
     (if list_all (\<lambda>c. 32 \<le> (of_char c :: nat) \<and> (of_char c :: nat) \<le> 126) t
      then map ascii_lower t else [])"

definition dataURLtoFile :: "env \<Rightarrow> string \<Rightarrow> string \<Rightarrow> failure + File" where
  "dataURLtoFile env dataurl filename =
     and_then (parse_data_url dataurl)
       (\<lambda>(mime, payload).
          (case atob env payload of
             Inl th \<Rightarrow> Inl (AtobError th)
           | Inr bstr \<Rightarrow>
               Inr \<lparr>file_name = filename, file_type = blob_type mime, file_data = bstr\<rparr>))"

text \<open>The first part of the first candidate that carries inline data.\<close>

definition imagePartFromResponse :: "GenerateContentResponse \<Rightarrow> inline_data option" where
  "imagePartFromResponse response =
     (case candidates response of
        None \<Rightarrow> None
      | Some [] \<Rightarrow> None
      | Some (c # _) \<Rightarrow>
          (case cand_content c of
             None \<Rightarrow> None
           | Some ct \<Rightarrow>
               (case parts ct of
                  None \<Rightarrow> None
                | Some ps \<Rightarrow>
                    (case List.find (\<lambda>p. part_inlineData p \<noteq> None) ps of
                       None \<Rightarrow> None
                     | Some p \<Rightarrow> part_inlineData p))))"

definition firstFinishReason :: "GenerateContentResponse \<Rightarrow> string option" where
  "firstFinishReason response =
     (case candidates response of
        None \<Rightarrow> None
      | Some [] \<Rightarrow> None
      | Some (c # _) \<Rightarrow> finishReason c)"

text \<open>Steps 2 and 3 of the interpretation and the final throw, when nothing was blocked.\<close>

definition interpretUnblocked :: "GenerateContentResponse \<Rightarrow> string \<Rightarrow> failure + string" where
  "interpretUnblocked response ctx =
     (case imagePartFromResponse response of
        Some img \<Rightarrow> Inr (''data:'' @ mimeType img @ '';base64,'' @ data img)
      | None \<Rightarrow>
          (let stopped =
                 (case firstFinishReason response of
                    None \<Rightarrow> None
                  | Some r \<Rightarrow> if r \<noteq> [] \<and> r \<noteq> ''STOP'' then Some r else None)
           in case stopped of
                Some r \<Rightarrow> Inl (GenerationStoppedError ctx r)
              | None \<Rightarrow>
                  (let textFeedback = map_option js_trim (response_text response) in
                   Inl (NoImageReturnedError ctx
                          (if truthy_string textFeedback then textFeedback else None)))))"

definition handleApiResponse :: "GenerateContentResponse \<Rightarrow> string \<Rightarrow> failure + string" where
  "handleApiResponse response ctx =
     (case promptFeedback response of
        None \<Rightarrow> interpretUnblocked response ctx
      | Some fb \<Rightarrow>
          (case blockReason fb of
             None \<Rightarrow> interpretUnblocked response ctx
           | Some reason \<Rightarrow>
               if reason \<noteq> [] then Inl (BlockedError reason (blockReasonMessage fb))
               else interpretUnblocked response ctx))"

definition image_model :: string where
  "image_model = ''gemini-2.5-flash-image-preview''"

definition text_model :: string where
  "text_model = ''gemini-2.5-flash''"

definition image_part :: "inline_data \<Rightarrow> part" where
  "image_part d = \<lparr>part_inlineData = Some d, part_text = None\<rparr>"

definition text_part :: "string \<Rightarrow> part" where
  "text_part t = \<lparr>part_inlineData = None, part_text = Some t\<rparr>"

text \<open>Sending a request: a rejection of the remote call is passed on.\<close>

definition send :: "env \<Rightarrow> request \<Rightarrow> failure + GenerateContentResponse" where
  "send env req =
     (case generateContent env req of Inl th \<Rightarrow> Inl (RemoteError th) | Inr r \<Rightarrow> Inr r)"

subsection \<open>Layered outfit synthesis\<close>

fun category_name :: "ClothingCategory \<Rightarrow> string" where
  "category_name Top = ''Top''"
| "category_name Outerwear = ''Outerwear''"
| "category_name Bottoms = ''Bottoms''"
| "category_name Shoes = ''Shoes''"
| "category_name Hat = ''Hat''"
| "category_name Sunglasses = ''Sunglasses''"

definition placement_text :: "env \<Rightarrow> hotspot \<Rightarrow> string" where
  "placement_text env h =
     '' should be placed on the person near coordinates (x: ''
       @ show_number env (hotspot_x h) @ '', y: '' @ show_number env (hotspot_y h) @ '').''"

definition upload_instruction :: "env \<Rightarrow> ClothingItem \<Rightarrow> nat \<Rightarrow> hotspot \<Rightarrow> string" where
  "upload_instruction env item garmentImageCounter h =
     ''- A '' @ category_name (item_type item) @ '' from garment image #''
       @ show_nat garmentImageCounter @ placement_text env h"

definition prompt_instruction :: "env \<Rightarrow> ClothingItem \<Rightarrow> string \<Rightarrow> hotspot \<Rightarrow> string" where
  "prompt_instruction env item described h =
     ''- A '' @ category_name (item_type item) @ '' described as '' @ dquote @ described
       @ dquote @ placement_text env h"

text \<open>\<open>item.value instanceof File\<close> and \<open>typeof item.value === 'string'\<close>\<close>

fun file_of :: "item_value \<Rightarrow> File option" where
  "file_of (FileValue f) = Some f"
| "file_of (TextValue t) = None"
| "file_of NullValue = None"

fun text_of :: "item_value \<Rightarrow> string option" where
  "text_of (TextValue t) = Some t"
| "text_of (FileValue f) = None"
| "text_of NullValue = None"

text \<open>
  The body of the loop over the items, on the loop's variables: the garment image parts,
  the prompt instructions and the garment image counter. Encoding a garment image may
  throw; an item without a hotspot or without a usable value leaves the variables as
  they are.
\<close>

type_synonym outfit_vars = "inline_data list \<times> string list \<times> nat"

definition outfit_step :: "env \<Rightarrow> ClothingItem \<Rightarrow> outfit_vars \<Rightarrow> failure + outfit_vars" where
  "outfit_step env item vars =
     (case vars of (garmentImageParts, promptInstructions, garmentImageCounter) \<Rightarrow>
        (case item_hotspot item of
           None \<Rightarrow> Inr vars
         | Some h \<Rightarrow>
             (case (item_source item, file_of (item_value item)) of
                (Upload, Some f) \<Rightarrow>
                  and_then (fileToPart env f)
                    (\<lambda>p. Inr (garmentImageParts @ [p],
                              promptInstructions
                                @ [upload_instruction env item (Suc garmentImageCounter) h],
                              Suc garmentImageCounter))
              | _ \<Rightarrow>
                  (case (item_source item, text_of (item_value item)) of
                     (Prompt, Some t) \<Rightarrow>
                       if js_trim t \<noteq> []
                       then Inr (garmentImageParts,
                                 promptInstructions @ [prompt_instruction env item t h],
                                 garmentImageCounter)
                       else Inr vars
                   | _ \<Rightarrow> Inr vars))))"

fun outfit_loop :: "env \<Rightarrow> ClothingItem list \<Rightarrow> outfit_vars \<Rightarrow> failure + outfit_vars" where
  "outfit_loop env [] vars = Inr vars"
| "outfit_loop env (item # rest) vars =
     (case outfit_step env item vars of
        Inl e \<Rightarrow> Inl e
      | Inr vars' \<Rightarrow> outfit_loop env rest vars')"

definition outfit_prompt :: "string list \<Rightarrow> string" where
  "outfit_prompt promptInstructions =
     js_join newline
       [''You are an expert virtual stylist AI. The first image provided is the person to dress. The subsequent images are garments to be placed on them.'',
        '''',
        ''Instructions:'',
        ''1.  Your task is to dress the person in the first image with a complete outfit described below.'',
        ''2.  Accurately place each item onto the person based on its description and placement coordinates.'',
        ''3.  Render all items realistically, matching the person's pose, body shape, and the lighting of the original photo.'',
        ''4.  Crucially, you must layer the garments correctly and naturally (e.g., a jacket goes over a shirt).'',
        ''5.  The rest of the image (background, and parts of the person not covered by the new outfit) must remain identical to the original.'',
        ''6.  The new clothing should replace any existing clothing.'',
        '''',
        ''Outfit Details:'',
        js_join newline promptInstructions,
        '''',
        ''Output: Return ONLY the final, single edited image. Do not return text.'']"

definition outfit_request :: "inline_data \<Rightarrow> inline_data list \<Rightarrow> string list \<Rightarrow> request" where
  "outfit_request originalImagePart garmentImageParts promptInstructions =
     PartsRequest image_model
       ([image_part originalImagePart] @ map image_part garmentImageParts
          @ [text_part (outfit_prompt promptInstructions)])"

definition generateLayeredOutfit :: "env \<Rightarrow> File \<Rightarrow> ClothingItem list \<Rightarrow> failure + string" where
  "generateLayeredOutfit env originalImage items =
     and_then (fileToPart env originalImage)
       (\<lambda>originalImagePart.
          and_then (outfit_loop env items ([], [], 0))
            (\<lambda>(garmentImageParts, promptInstructions, garmentImageCounter).
               if length promptInstructions = 0 then Inl NoValidItemsError
               else
                 and_then
                   (send env
                      (outfit_request originalImagePart garmentImageParts promptInstructions))
                   (\<lambda>response. handleApiResponse response ''layered-outfit'')))"

subsection \<open>Contextual variation synthesis\<close>

definition variation_prompt_head :: string where
  "variation_prompt_head =
     js_join newline
       [''INSTRUCTIONS:'',
        ''1.  First, perfectly and cleanly isolate the main person from their original background. Remove all background elements.'',
        ''2.  Next, place this isolated person into a new, realistic scene described as: '']
       @ dquote"

definition variation_prompt_tail :: string where
  "variation_prompt_tail =
     dquote @
     js_join newline
       [''.'',
        ''3.  Ensure the lighting on the person is adjusted to perfectly match the new environment.'',
        ''4.  Do not change the person, their pose, or their clothing in any way.'',
        ''5.  The final output must be a photorealistic image.'',
        '''',
        ''OUTPUT: Return ONLY the final generated image.'']"

definition variation_request :: "inline_data \<Rightarrow> string \<Rightarrow> request" where
  "variation_request sourceImagePart scene =
     PartsRequest image_model
       [image_part sourceImagePart,
        text_part (variation_prompt_head @ scene @ variation_prompt_tail)]"

text \<open>One sub-request of the batch: send the request of a context, interpret the response.\<close>

definition variation_result :: "env \<Rightarrow> inline_data \<Rightarrow> string \<Rightarrow> failure + string" where
  "variation_result env sourceImagePart scene =
     and_then (send env (variation_request sourceImagePart scene))
       (\<lambda>response. handleApiResponse response (''variation: '' @ scene))"

definition generateVariations :: "env \<Rightarrow> File \<Rightarrow> string list \<Rightarrow> failure + string list" where
  "generateVariations env sourceImage contexts =
     (if length contexts < 1 then Inl NoContextsError
      else
        and_then (fileToPart env sourceImage)
          (\<lambda>sourceImagePart.
             promise_all (settleOrder env)
               (map (variation_result env sourceImagePart) contexts)))"

subsection \<open>Background-composite synthesis\<close>

definition scene_prompt :: string where
  "scene_prompt =
     js_join newline
       [''You are an expert photo composition AI.'',
        ''INSTRUCTIONS:'',
        ''1.  The first image contains the subject (a person). Perfectly and cleanly isolate the main person from their original background.'',
        ''2.  The second image is the new background.'',
        ''3.  Place the isolated person realistically into the new background.'',
        ''4.  CRITICAL: Analyze the lighting, shadows, and color temperature of the new background image. You MUST adjust the lighting on the person to perfectly match the new environment, making it look as if they were originally photographed there.'',
        ''5.  Do not change the person's clothing or pose.'',
        ''OUTPUT: Return ONLY the final, photorealistic composite image.'']"

definition generateSceneFromImage :: "env \<Rightarrow> File \<Rightarrow> File \<Rightarrow> failure + string list" where
  "generateSceneFromImage env personImage backgroundImage =
     and_then (fileToPart env personImage)
       (\<lambda>personImagePart.
          and_then (fileToPart env backgroundImage)
            (\<lambda>backgroundImagePart.
               and_then
                 (send env
                    (PartsRequest image_model
                       [image_part personImagePart, image_part backgroundImagePart,
                        text_part scene_prompt]))
                 (\<lambda>response.
                    and_then (handleApiResponse response ''variation from image'')
                      (\<lambda>resultUrl. Inr [resultUrl]))))"

subsection \<open>Refinement synthesis\<close>

definition refine_prompt :: "string \<Rightarrow> string" where
  "refine_prompt refinementPrompt =
     js_join newline
       [''You are an expert photo editor. The user wants to refine the person in this image.'',
        ''User's instruction: '' @ dquote @ refinementPrompt @ dquote,
        '''',
        ''Your task is to subtly adjust the person in the image to match the user's instruction. The change should be natural and realistic.'',
        ''IMPORTANT: Keep everything else in the image (clothing, background, lighting) exactly the same. Only modify the person as requested.'']"

definition refineImage :: "env \<Rightarrow> File \<Rightarrow> string \<Rightarrow> failure + string" where
  "refineImage env sourceImage refinementPrompt =
     and_then (fileToPart env sourceImage)
       (\<lambda>sourceImagePart.
          and_then
            (send env
               (PartsRequest image_model
                  [image_part sourceImagePart, text_part (refine_prompt refinementPrompt)]))
            (\<lambda>response. handleApiResponse response (''refinement: '' @ refinementPrompt)))"

subsection \<open>Caption synthesis\<close>

definition caption_prompt :: "string \<Rightarrow> string list \<Rightarrow> string" where
  "caption_prompt clothingPrompt contexts =
     (let clothingDescription =
            (if clothingPrompt \<noteq> []
             then ''The person is wearing: '' @ dquote @ clothingPrompt @ dquote
             else ''The person is wearing a new outfit.'')
      in ''You are a witty social media expert. Generate 4-5 catchy Instagram captions for a photo series. ''
           @ clothingDescription @ ''. The photos show them in these settings: ''
           @ js_join '', '' contexts
           @ ''. The captions should be fun, engaging, and include relevant, popular hashtags and emojis.'')"

text \<open>The built-in list returned when the response cannot be used (bytes as in the source).\<close>

definition fallback_captions :: "json list" where
  "fallback_captions =
     [JString ''Had a great time exploring these places!'',
      JString (''New outfit, new adventures! ''
        @ [CHR 0xC3, CHR 0xA2, CHR 0xC5, CHR 0x93, CHR 0xC2, CHR 0xA8]),
      JString (''Which look is your favorite? Let me know! ''
        @ [CHR 0xC3, CHR 0xB0, CHR 0xC5, CHR 0xB8, CHR 0xE2, CHR 0x80, CHR 0x98,
           CHR 0xE2, CHR 0x80, CHR 0xA1]),
      JString ''Making memories all over the world. #travel #style'']"

text \<open>
  \<open>result.captions && Array.isArray(result.captions)\<close>: the array under the key
  \<open>captions\<close> of a parsed object, if there is one. Reading a property of \<open>null\<close> throws,
  a primitive or an array has no such property, and every array is truthy.
\<close>

fun captions_array :: "json \<Rightarrow> json list option" where
  "captions_array (JObject kvs) =
     (case map_of kvs ''captions'' of
        Some (JArray vs) \<Rightarrow> Some vs
      | _ \<Rightarrow> None)"
| "captions_array _ = None"

text \<open>
  The body of the \<open>try\<close> block: \<open>None\<close> when it throws (no text to trim, a text that
  \<open>JSON.parse\<close> rejects, or a value without a captions array).
\<close>

definition parse_captions :: "env \<Rightarrow> GenerateContentResponse \<Rightarrow> json list option" where
  "parse_captions env response =
     (case response_text response of
        None \<Rightarrow> None
      | Some t \<Rightarrow>
          (case JSON_parse env (js_trim t) of
             None \<Rightarrow> None
           | Some result \<Rightarrow> captions_array result))"

definition generateCaptions :: "env \<Rightarrow> string \<Rightarrow> string list \<Rightarrow> failure + json list" where
  "generateCaptions env clothingPrompt contexts =
     and_then (send env (JsonRequest text_model (caption_prompt clothingPrompt contexts)))
       (\<lambda>response.
          (case parse_captions env response of
             Some result_captions \<Rightarrow> Inr result_captions
           | None \<Rightarrow> Inr fallback_captions))"

section \<open>Edit history\<close>

definition currentImage :: "app_state \<Rightarrow> File option" where
  "currentImage s = js_index (history s) (historyIndex s)"

definition originalImage :: "app_state \<Rightarrow> File option" where
  "originalImage s = js_index (history s) 0"

definition canUndo :: "app_state \<Rightarrow> bool" where
  "canUndo s = (historyIndex s > 0)"

definition canRedo :: "app_state \<Rightarrow> bool" where
  "canRedo s = (historyIndex s < int (length (history s)) - 1)"

definition addImageToHistory :: "app_state \<Rightarrow> File \<Rightarrow> app_state" where
  "addImageToHistory s newImageFile =
     (let newHistory = js_slice0 (history s) (historyIndex s + 1) @ [newImageFile]
      in s\<lparr>history := newHistory, historyIndex := int (length newHistory) - 1\<rparr>)"

definition handleImageUpload :: "app_state \<Rightarrow> File \<Rightarrow> app_state" where
  "handleImageUpload s f =
     s\<lparr>error := None, history := [f], historyIndex := 0, clothingItems := [],
       activeClothingItemId := None, displayHotspot := None, variationResults := None,
       isOutfitApplied := False\<rparr>"

definition handleLandingPageUpload :: "app_state \<Rightarrow> File \<Rightarrow> app_state" where
  "handleLandingPageUpload s f = (handleImageUpload s f)\<lparr>appStarted := True\<rparr>"

definition handleUndo :: "app_state \<Rightarrow> app_state" where
  "handleUndo s =
     (if canUndo s
      then s\<lparr>historyIndex := historyIndex s - 1, displayHotspot := None,
             isOutfitApplied := False\<rparr>
      else s)"

definition handleRedo :: "app_state \<Rightarrow> app_state" where
  "handleRedo s =
     (if canRedo s
      then s\<lparr>historyIndex := historyIndex s + 1, displayHotspot := None,
             isOutfitApplied := False\<rparr>
      else s)"

definition handleReset :: "app_state \<Rightarrow> app_state" where
  "handleReset s =
     (if length (history s) > 0
      then s\<lparr>historyIndex := 0, error := None, displayHotspot := None,
             isOutfitApplied := False\<rparr>
      else s)"

definition handleUploadNew :: "app_state \<Rightarrow> app_state" where
  "handleUploadNew s =
     s\<lparr>history := [], historyIndex := - 1, error := None, clothingItems := [],
       activeClothingItemId := None, displayHotspot := None, variationResults := None,
       isOutfitApplied := False, appStarted := False\<rparr>"

text \<open>
  The operations on the history, as a user can interleave them: upload (reset to a new
  initial image), append, undo, redo, reset to the original, and start over.
\<close>

datatype history_op =
  OpUpload File | OpAppend File | OpUndo | OpRedo | OpReset | OpUploadNew

fun apply_history_op :: "app_state \<Rightarrow> history_op \<Rightarrow> app_state" where
  "apply_history_op s (OpUpload f) = handleImageUpload s f"
| "apply_history_op s (OpAppend f) = addImageToHistory s f"
| "apply_history_op s OpUndo = handleUndo s"
| "apply_history_op s OpRedo = handleRedo s"
| "apply_history_op s OpReset = handleReset s"
| "apply_history_op s OpUploadNew = handleUploadNew s"

definition run_history_ops :: "app_state \<Rightarrow> history_op list \<Rightarrow> app_state" where
  "run_history_ops s ops = foldl apply_history_op s ops"

text \<open>The cursor is a valid index, or \<open>-1\<close> on the empty history.\<close>

definition cursor_valid :: "app_state \<Rightarrow> bool" where
  "cursor_valid s =
     (if history s = [] then historyIndex s = - 1
      else 0 \<le> historyIndex s \<and> historyIndex s < int (length (history s)))"

section \<open>Outfit composition and the workflow\<close>

text \<open>
  An asynchronous handler is modelled as one step from the state its closure captured to
  the state after its last update; the outcome of the remote exchange comes from the
  environment.
\<close>

text \<open>Truthiness of \<open>item.value\<close>: a file, or a text that is not empty.\<close>

fun value_truthy :: "item_value \<Rightarrow> bool" where
  "value_truthy (FileValue f) = True"
| "value_truthy (TextValue t) = (t \<noteq> [])"
| "value_truthy NullValue = False"

text \<open>The filter of \<open>handleApplyOutfit\<close>: \<open>item.value && item.hotspot\<close>.\<close>

definition has_value_and_hotspot :: "ClothingItem \<Rightarrow> bool" where
  "has_value_and_hotspot item = (value_truthy (item_value item) \<and> item_hotspot item \<noteq> None)"

definition finish_loading :: "app_state \<Rightarrow> app_state" where
  "finish_loading s = s\<lparr>isLoading := False, loadingMessage := default_loading_message\<rparr>"

definition handleApplyOutfit :: "env \<Rightarrow> app_state \<Rightarrow> ClothingItem list \<Rightarrow> app_state" where
  "handleApplyOutfit env s items =
     (case currentImage s of
        None \<Rightarrow> s\<lparr>error := Some ''No image loaded to edit.''\<rparr>
      | Some current \<Rightarrow>
          (let itemsToApply = filter has_value_and_hotspot items in
           if length itemsToApply = 0
           then s\<lparr>error := Some ''Please add and place at least one clothing item to apply.''\<rparr>
           else
             (case and_then (generateLayeredOutfit env current itemsToApply)
                     (\<lambda>editedImageUrl.
                        dataURLtoFile env editedImageUrl
                          (''outfit-'' @ show_nat (now env) @ ''.png'')) of
                Inr newImageFile \<Rightarrow>
                  finish_loading
                    ((addImageToHistory (s\<lparr>error := None\<rparr>) newImageFile)
                       \<lparr>isOutfitApplied := True, displayHotspot := None,
                        activeClothingItemId := None\<rparr>)
              | Inl err \<Rightarrow>
                  finish_loading
                    (s\<lparr>error := Some (''Failed to apply the outfit. '' @ error_message err)\<rparr>))))"

definition handleConfirmOutfit :: "app_state \<Rightarrow> app_state" where
  "handleConfirmOutfit s = s\<lparr>clothingItems := [], isOutfitApplied := False\<rparr>"

text \<open>The argument of \<open>handleGenerate\<close>: a list of contexts or a background image.\<close>

datatype generate_source = Contexts "string list" | Background File

definition clothing_prompt_of :: "ClothingItem list \<Rightarrow> string" where
  "clothing_prompt_of items =
     js_join '', ''
       (map (\<lambda>i. case text_of (item_value i) of
                    Some t \<Rightarrow> t
                  | None \<Rightarrow> category_name (item_type i)) items)"

definition handleGenerate :: "env \<Rightarrow> app_state \<Rightarrow> generate_source \<Rightarrow> app_state" where
  "handleGenerate env s source =
     (case currentImage s of
        None \<Rightarrow> s\<lparr>error := Some ''No image available to generate variations.''\<rparr>
      | Some current \<Rightarrow>
          (let clothingPrompt = clothing_prompt_of (clothingItems s);
               generated =
                 (case source of
                    Contexts cs \<Rightarrow>
                      and_then (generateVariations env current cs) (\<lambda>imgs. Inr (imgs, cs))
                  | Background bg \<Rightarrow>
                      and_then (generateSceneFromImage env current bg)
                        (\<lambda>imgs. Inr (imgs, [''the user-provided background''])))
           in
             (case and_then generated
                     (\<lambda>(imgs, contextsForCaptions).
                        and_then (generateCaptions env clothingPrompt contextsForCaptions)
                          (\<lambda>caps. Inr \<lparr>images = map Some imgs, captions = caps\<rparr>)) of
                Inr results \<Rightarrow>
                  finish_loading (s\<lparr>error := None, variationResults := Some results\<rparr>)
              | Inl err \<Rightarrow>
                  finish_loading
                    (s\<lparr>error :=
                         Some (''Failed to generate variations. '' @ error_message err)\<rparr>))))"

definition handleDiscardVariations :: "app_state \<Rightarrow> app_state" where
  "handleDiscardVariations s = s\<lparr>variationResults := None\<rparr>"

text \<open>
  Selecting a variation: the image at the index becomes the next version. At an index
  without an image, \<open>dataURLtoFile\<close> is called on \<open>undefined\<close> and its first method
  call throws.
\<close>

definition handleSelectVariation :: "env \<Rightarrow> app_state \<Rightarrow> nat \<Rightarrow> app_state" where
  "handleSelectVariation env s i =
     (case variationResults s of
        None \<Rightarrow> s
      | Some results \<Rightarrow>
          (case (case js_get (images results) i of
                   None \<Rightarrow> Inl (TypeErrorThrown (typeErrorMessage env))
                 | Some selectedImageUrl \<Rightarrow>
                     dataURLtoFile env selectedImageUrl
                       (''variation-'' @ show_nat (now env) @ ''.png'')) of
             Inr newImageFile \<Rightarrow>
               finish_loading
                 ((addImageToHistory s newImageFile)
                    \<lparr>variationResults := None, clothingItems := [],
                     activeClothingItemId := None, displayHotspot := None,
                     isOutfitApplied := False\<rparr>)
           | Inl err \<Rightarrow>
               finish_loading
                 (s\<lparr>error :=
                      Some (''Failed to process the selected image. '' @ error_message err)\<rparr>)))"

subsection \<open>Placing an item by a click on the image\<close>

text \<open>
  What the handler reads from the click and the image: the pointer position and the
  left and top of the image's bounding rectangle (finite binary64 values), and the
  natural and rendered sizes of the image (whole numbers).
\<close>

record click =
  clientX :: rat
  clientY :: rat
  rect_left :: rat
  rect_top :: rat
  naturalWidth :: nat
  naturalHeight :: nat
  clientWidth :: nat
  clientHeight :: nat

definition offsetX :: "click \<Rightarrow> number" where
  "offsetX e = to_binary64 (clientX e - rect_left e)"

definition offsetY :: "click \<Rightarrow> number" where
  "offsetY e = to_binary64 (clientY e - rect_top e)"

definition scaleX :: "click \<Rightarrow> number" where
  "scaleX e = js_div_nat (naturalWidth e) (clientWidth e)"

definition scaleY :: "click \<Rightarrow> number" where
  "scaleY e = js_div_nat (naturalHeight e) (clientHeight e)"

definition originalX :: "click \<Rightarrow> number" where
  "originalX e = Math_round (js_mul (offsetX e) (scaleX e))"

definition originalY :: "click \<Rightarrow> number" where
  "originalY e = Math_round (js_mul (offsetY e) (scaleY e))"

definition handleImageClick :: "app_state \<Rightarrow> click \<Rightarrow> app_state" where
  "handleImageClick s e =
     (case activeClothingItemId s of
        None \<Rightarrow> s
      | Some active \<Rightarrow>
          s\<lparr>displayHotspot := Some (Hotspot (offsetX e) (offsetY e)),
            clothingItems :=
              map (\<lambda>item. if item_id item = active
                           then item\<lparr>item_hotspot := Some (Hotspot (originalX e) (originalY e))\<rparr>
                           else item)
                (clothingItems s),
            activeClothingItemId := None\<rparr>)"

subsection \<open>Refinement of one generated image\<close>

definition handleOpenRefinementModal :: "app_state \<Rightarrow> nat \<Rightarrow> app_state" where
  "handleOpenRefinementModal s i =
     (case variationResults s of
        None \<Rightarrow> s
      | Some results \<Rightarrow>
          s\<lparr>refinementState :=
              \<lparr>isOpen = True, imageIndex = Some i, imageSrc = js_get (images results) i,
               caption =
                 (case captions results of
                    [] \<Rightarrow> Some (JString ''Here's one of the looks!'')
                  | c # _ \<Rightarrow>
                      if js_truthy c then Some c
                      else Some (JString ''Here's one of the looks!''))\<rparr>\<rparr>)"

definition handleCloseRefinementModal :: "app_state \<Rightarrow> app_state" where
  "handleCloseRefinementModal s =
     (if \<not> isRefining s then s\<lparr>refinementState := closed_refinement\<rparr> else s)"

text \<open>\<open>!refinementState.caption\<close>\<close>

definition caption_missing :: "json option \<Rightarrow> bool" where
  "caption_missing c = (case c of None \<Rightarrow> True | Some v \<Rightarrow> \<not> js_truthy v)"

text \<open>
  The \<open>try\<close> block of \<open>handleRefineRequest\<close> up to the refined image: decoding the
  targeted image into a file and the remote refinement.
\<close>

definition refine_target :: "env \<Rightarrow> string \<Rightarrow> nat \<Rightarrow> string \<Rightarrow> failure + string" where
  "refine_target env src i refinementPrompt =
     and_then (dataURLtoFile env src (''refine-target-'' @ show_nat i @ ''.png''))
       (\<lambda>imageFile. refineImage env imageFile refinementPrompt)"

definition handleRefineRequest :: "env \<Rightarrow> app_state \<Rightarrow> string \<Rightarrow> app_state" where
  "handleRefineRequest env s refinementPrompt =
     (case (imageIndex (refinementState s), imageSrc (refinementState s), variationResults s) of
        (Some i, Some src, Some results) \<Rightarrow>
          (if src = [] \<or> caption_missing (caption (refinementState s))
           then s\<lparr>error := Some ''Cannot perform refinement, required data is missing.''\<rparr>
           else if js_trim refinementPrompt = []
           then s\<lparr>error := Some ''Please provide instructions for the refinement.''\<rparr>
           else
             (case refine_target env src i refinementPrompt of
                Inr refinedImageUrl \<Rightarrow>
                  (let newImages = js_set (images results) i refinedImageUrl;
                       closing = (if \<not> isRefining s then closed_refinement
                                  else refinementState s)
                   in s\<lparr>error := None,
                        variationResults := Some (results\<lparr>images := newImages\<rparr>),
                        refinementState := closing, isRefining := False\<rparr>)
              | Inl err \<Rightarrow>
                  s\<lparr>error := Some (''Failed to refine the image. '' @ error_message err),
                    isRefining := False\<rparr>))
      | _ \<Rightarrow> s\<lparr>error := Some ''Cannot perform refinement, required data is missing.''\<rparr>)"

section \<open>The states the application can reach\<close>

text \<open>
  From the initial state, by the handlers above. The last rule stands for every other
  handler of the application (the edits of the clothing panel, the anime and multi-angle
  generations, dismissing an error, the compare button): they assign none of the
  history, the cursor and the outfit-applied flag.
\<close>

inductive reachable :: "app_state \<Rightarrow> bool" where
  start: "reachable initial_state"
| upload: "reachable s \<Longrightarrow> reachable (handleImageUpload s f)"
| landing_upload: "reachable s \<Longrightarrow> reachable (handleLandingPageUpload s f)"
| apply_outfit: "reachable s \<Longrightarrow> reachable (handleApplyOutfit env s items)"
| confirm_outfit: "reachable s \<Longrightarrow> reachable (handleConfirmOutfit s)"
| generate: "reachable s \<Longrightarrow> reachable (handleGenerate env s source)"
| select_variation: "reachable s \<Longrightarrow> reachable (handleSelectVariation env s i)"
| discard_variations: "reachable s \<Longrightarrow> reachable (handleDiscardVariations s)"
| open_refinement: "reachable s \<Longrightarrow> reachable (handleOpenRefinementModal s i)"
| close_refinement: "reachable s \<Longrightarrow> reachable (handleCloseRefinementModal s)"
| refine: "reachable s \<Longrightarrow> reachable (handleRefineRequest env s p)"
| undo: "reachable s \<Longrightarrow> reachable (handleUndo s)"
| redo: "reachable s \<Longrightarrow> reachable (handleRedo s)"
| reset: "reachable s \<Longrightarrow> reachable (handleReset s)"
| upload_new: "reachable s \<Longrightarrow> reachable (handleUploadNew s)"
| image_click: "reachable s \<Longrightarrow> reachable (handleImageClick s e)"
| other:
    "reachable s \<Longrightarrow> history s' = history s \<Longrightarrow> historyIndex s' = historyIndex s
     \<Longrightarrow> isOutfitApplied s' = isOutfitApplied s \<Longrightarrow> reachable s'"

section \<open>Characterisations used in the properties\<close>

text \<open>
  An item adds an instruction in the loop of layered-outfit synthesis exactly when it has
  a hotspot and a value of the kind its source mode asks for: a file for an upload, a
  text that is not blank for a description.
\<close>

definition contributes_instruction :: "ClothingItem \<Rightarrow> bool" where
  "contributes_instruction item =
     (item_hotspot item \<noteq> None \<and>
      ((item_source item = Upload \<and> file_of (item_value item) \<noteq> None) \<or>
       (item_source item = Prompt \<and>
        truthy_string (map_option js_trim (text_of (item_value item))))))"

text \<open>
  The instructions of a list of contributing items, in order; uploads are numbered from
  the given counter.
\<close>

fun instructions_from :: "env \<Rightarrow> nat \<Rightarrow> ClothingItem list \<Rightarrow> string list" where
  "instructions_from env n [] = []"
| "instructions_from env n (item # rest) =
     (case (item_hotspot item, item_source item, item_value item) of
        (Some h, Upload, FileValue f) \<Rightarrow>
          upload_instruction env item (Suc n) h # instructions_from env (Suc n) rest
      | (Some h, Prompt, TextValue t) \<Rightarrow>
          prompt_instruction env item t h # instructions_from env n rest
      | _ \<Rightarrow> instructions_from env n rest)"

text \<open>
  While the outfit-applied flag is set, the cursor is above the first version and on the
  last one.
\<close>

definition applied_on_last :: "app_state \<Rightarrow> bool" where
  "applied_on_last s =
     (isOutfitApplied s \<longrightarrow>
        0 < historyIndex s \<and> historyIndex s = int (length (history s)) - 1)"

text \<open>\<open>Math.round\<close> of an exact quotient: the nearest whole number, a tie going up.\<close>

definition round_half_up :: "rat \<Rightarrow> int" where
  "round_half_up q = \<lfloor>q + 1 / 2\<rfloor>"

text \<open>A rational number that is a binary64 number: rounding leaves it as it is.\<close>

definition is_binary64 :: "rat \<Rightarrow> bool" where
  "is_binary64 x = (to_binary64 x = Finite x)"

section \<open>Sample inputs\<close>

definition photoA :: File where
  "photoA = \<lparr>file_name = ''a.png'', file_type = ''image/png'', file_data = ''QQ==''\<rparr>"

definition photoB :: File where
  "photoB = \<lparr>file_name = ''b.png'', file_type = ''image/png'', file_data = ''Qg==''\<rparr>"

definition photoC :: File where
  "photoC = \<lparr>file_name = ''c.png'', file_type = ''image/png'', file_data = ''Qw==''\<rparr>"

definition photoX :: File where
  "photoX = \<lparr>file_name = ''x.png'', file_type = ''image/png'', file_data = ''WA==''\<rparr>"

text \<open>A response that carries one image and stopped normally.\<close>

definition image_response :: GenerateContentResponse where
  "image_response =
     \<lparr>promptFeedback = None,
      candidates =
        Some [\<lparr>cand_content =
                 Some \<lparr>parts = Some [image_part \<lparr>mimeType = ''image/png'', data = ''Wg==''\<rparr>]\<rparr>,
               finishReason = Some ''STOP''\<rparr>],
      response_text = None\<rparr>"

text \<open>
  An environment in which every file reads as a data URL of its type and content, the
  remote model answers every request with \<open>image_response\<close>, and \<open>JSON.parse\<close> rejects
  every text.
\<close>

definition sample_env :: env where
  "sample_env =
     \<lparr>convertImageToPNG = (\<lambda>f. Inr f),
      readAsDataURL = (\<lambda>f. Some (''data:'' @ file_type f @ '';base64,'' @ file_data f)),
      generateContent = (\<lambda>r. Inr image_response),
      atob = (\<lambda>t. Inr t),
      now = 1700000000000,
      JSON_parse = (\<lambda>t. None),
      settleOrder = [],
      numberToString = (\<lambda>q. ''?''),
      typeErrorMessage = ''Cannot read properties of undefined (reading split)''\<rparr>"

definition photoA_part :: inline_data where
  "photoA_part = \<lparr>mimeType = ''image/png'', data = ''QQ==''\<rparr>"


text \<open>A described item whose text is blank, with a placement point.\<close>

definition blank_item :: ClothingItem where
  "blank_item =
     \<lparr>item_id = 1, item_type = Hat, item_source = Prompt, item_value = TextValue ''   '',
      item_hotspot = Some (Hotspot (Finite 600) (Finite 800))\<rparr>"

definition hat_item :: ClothingItem where
  "hat_item =
     \<lparr>item_id = 2, item_type = Hat, item_source = Prompt, item_value = TextValue ''a red hat'',
      item_hotspot = Some (Hotspot (Finite 600) (Finite 800))\<rparr>"

definition unplaced_item :: ClothingItem where
  "unplaced_item =
     \<lparr>item_id = 3, item_type = Top, item_source = Upload, item_value = FileValue photoB,
      item_hotspot = None\<rparr>"

text \<open>A session: upload a photo, apply a one-item outfit, generate one variation.\<close>

definition applied_state :: app_state where
  "applied_state =
     handleApplyOutfit sample_env
       ((handleImageUpload initial_state photoA)\<lparr>clothingItems := [hat_item]\<rparr>) [hat_item]"

definition results_state :: app_state where
  "results_state = handleGenerate sample_env applied_state (Contexts [''a beach''])"

text \<open>A history of three versions with the cursor on the last.\<close>

definition abc_state :: app_state where
  "abc_state = initial_state\<lparr>history := [photoA, photoB, photoC], historyIndex := 2\<rparr>"

definition sample_ops :: "history_op list" where
  "sample_ops =
     [OpUpload photoA, OpAppend photoB, OpAppend photoC, OpUndo, OpUndo, OpAppend photoX,
      OpRedo]"

text \<open>Responses for the other branches of the interpretation.\<close>

definition blocked_response :: GenerateContentResponse where
  "blocked_response =
     image_response\<lparr>promptFeedback :=
       Some \<lparr>blockReason = Some ''SAFETY'', blockReasonMessage = None\<rparr>\<rparr>"

definition stopped_response :: GenerateContentResponse where
  "stopped_response =
     \<lparr>promptFeedback = None,
      candidates = Some [\<lparr>cand_content = None, finishReason = Some ''MAX_TOKENS''\<rparr>],
      response_text = None\<rparr>"

definition text_response :: GenerateContentResponse where
  "text_response =
     \<lparr>promptFeedback = None,
      candidates =
        Some [\<lparr>cand_content = Some \<lparr>parts = Some [text_part '' Sorry. '']\<rparr>,
               finishReason = Some ''STOP''\<rparr>],
      response_text = Some '' Sorry. ''\<rparr>"

text \<open>
  A caption exchange whose text parses to an object without a \<open>captions\<close> property, and
  one whose text does not parse.
\<close>

definition no_captions_env :: env where
  "no_captions_env =
     sample_env\<lparr>generateContent :=
         (\<lambda>r. Inr \<lparr>promptFeedback = None, candidates = None, response_text = Some '' {} ''\<rparr>),
       JSON_parse := (\<lambda>t. if t = ''{}'' then Some (JObject []) else None)\<rparr>"

definition malformed_env :: env where
  "malformed_env = sample_env\<lparr>generateContent := (\<lambda>r. Inr text_response)\<rparr>"

text \<open>
  Three generated variations with the refinement dialog opened on the second; a remote
  model that answers with another image, and one that rejects every call.
\<close>

definition gallery_state :: app_state where
  "gallery_state =
     handleOpenRefinementModal
       (handleGenerate sample_env applied_state (Contexts [''a beach'', ''a cafe'', ''a park'']))
       1"

definition refined_response :: GenerateContentResponse where
  "refined_response =
     \<lparr>promptFeedback = None,
      candidates =
        Some [\<lparr>cand_content =
                 Some \<lparr>parts = Some [image_part \<lparr>mimeType = ''image/png'', data = ''Ug==''\<rparr>]\<rparr>,
               finishReason = Some ''STOP''\<rparr>],
      response_text = None\<rparr>"

definition refining_env :: env where
  "refining_env = sample_env\<lparr>generateContent := (\<lambda>r. Inr refined_response)\<rparr>"

definition offline_env :: env where
  "offline_env = sample_env\<lparr>generateContent := (\<lambda>r. Inl (JsError ''network error''))\<rparr>"

definition jacket_item :: ClothingItem where
  "jacket_item =
     \<lparr>item_id = 4, item_type = Outerwear, item_source = Upload, item_value = FileValue photoB,
      item_hotspot = Some (Hotspot (Finite 300) (Finite 400))\<rparr>"

definition mixed_items :: "ClothingItem list" where
  "mixed_items = [hat_item, unplaced_item, blank_item, jacket_item]"

text \<open>
  A described item whose text is one ideographic space (U+3000), and a response whose
  text is a no-break space followed by an ideographic space.
\<close>

definition ideographic_item :: ClothingItem where
  "ideographic_item =
     \<lparr>item_id = 5, item_type = Hat, item_source = Prompt,
      item_value = TextValue [CHR 0xE3, CHR 0x80, CHR 0x80],
      item_hotspot = Some (Hotspot (Finite 600) (Finite 800))\<rparr>"

definition blank_text_response :: GenerateContentResponse where
  "blank_text_response =
     \<lparr>promptFeedback = None,
      candidates = Some [\<lparr>cand_content = None, finishReason = Some ''STOP''\<rparr>],
      response_text = Some [CHR 0xC2, CHR 0xA0, CHR 0xE3, CHR 0x80, CHR 0x80]\<rparr>"

text \<open>
  A click at offset (150, 200) on a 300 by 400 rendering of a 1200 by 1600 image, and a
  click at offset 91 across a 364 pixel wide rendering of a 750 pixel wide image.
\<close>

definition quadruple_click :: click where
  "quadruple_click =
     \<lparr>clientX = 160, clientY = 220, rect_left = 10, rect_top = 20,
      naturalWidth = 1200, naturalHeight = 1600, clientWidth = 300, clientHeight = 400\<rparr>"

definition uneven_click :: click where
  "uneven_click =
     \<lparr>clientX = 91, clientY = 0, rect_left = 0, rect_top = 0,
      naturalWidth = 750, naturalHeight = 750, clientWidth = 364, clientHeight = 364\<rparr>"

text \<open>An uploaded photo with one item waiting for its placement click.\<close>

definition placing_state :: app_state where
  "placing_state =
     (handleImageUpload initial_state photoA)
       \<lparr>clothingItems := [unplaced_item], activeClothingItemId := Some 3\<rparr>"
section \<open>Evaluation on the sample inputs\<close>

lemma and_then_Inr: "and_then (Inr v) k = k v"
  by (simp add: and_then_def)

lemma and_then_Inl: "and_then (Inl e) k = Inl e"
  by (simp add: and_then_def)

lemma parse_QQ: "parse_data_url ''data:image/png;base64,QQ=='' = Inr (''image/png'', ''QQ=='')"
  by (simp add: parse_data_url_def until_semicolon_def Let_def)

lemma parse_Wg: "parse_data_url ''data:image/png;base64,Wg=='' = Inr (''image/png'', ''Wg=='')"
  by (simp add: parse_data_url_def until_semicolon_def Let_def)

lemma fileToPart_photoA: "fileToPart sample_env photoA = Inr photoA_part"
  using parse_QQ
  by (simp add: fileToPart_def sample_env_def photoA_def photoA_part_def
      SUPPORTED_MIME_TYPES_def and_then_def)

lemma fileToPart_generated:
  "fileToPart sample_env \<lparr>file_name = n, file_type = ''image/png'', file_data = ''Wg==''\<rparr>
     = Inr \<lparr>mimeType = ''image/png'', data = ''Wg==''\<rparr>"
  using parse_Wg
  by (simp add: fileToPart_def sample_env_def SUPPORTED_MIME_TYPES_def and_then_def)

lemma settleOrder_sample: "settleOrder sample_env = []"
  by (simp add: sample_env_def)

lemma send_sample: "send sample_env r = Inr image_response"
  by (simp add: send_def sample_env_def)

lemma handleApiResponse_image_response:
  "handleApiResponse image_response ctx = Inr ''data:image/png;base64,Wg==''"
  by (simp add: handleApiResponse_def interpretUnblocked_def imagePartFromResponse_def
      image_response_def image_part_def)

lemma blob_type_png: "blob_type ''image/png'' = ''image/png''"
  by (simp add: blob_type_def ascii_lower_def)

lemma dataURLtoFile_generated:
  "dataURLtoFile sample_env ''data:image/png;base64,Wg=='' n
     = Inr \<lparr>file_name = n, file_type = ''image/png'', file_data = ''Wg==''\<rparr>"
  using parse_Wg by (simp add: dataURLtoFile_def and_then_def sample_env_def blob_type_png)

lemma js_trim_red_hat: "js_trim ''a red hat'' = ''a red hat''"
  by (simp add: js_trim_def js_whitespace_def strip_leading.simps)

lemma js_trim_blank: "js_trim ''   '' = []"
  by (simp add: js_trim_def js_whitespace_def strip_leading.simps)

lemma js_trim_sorry: "js_trim '' Sorry. '' = ''Sorry.''"
  by (simp add: js_trim_def js_whitespace_def strip_leading.simps)

lemma js_trim_braces: "js_trim '' {} '' = ''{}''"
  by (simp add: js_trim_def js_whitespace_def strip_leading.simps)

lemma js_trim_smile: "js_trim ''smile'' = ''smile''"
  by (simp add: js_trim_def js_whitespace_def strip_leading.simps)

lemma js_trim_ideographic: "js_trim [CHR 0xE3, CHR 0x80, CHR 0x80] = []"
  by (simp add: js_trim_def js_whitespace_def strip_leading.simps)

lemma js_trim_no_break_ideographic:
  "js_trim [CHR 0xC2, CHR 0xA0, CHR 0xE3, CHR 0x80, CHR 0x80] = []"
  by (simp add: js_trim_def js_whitespace_def strip_leading.simps)

lemma outfit_step_hat:
  "outfit_step env hat_item (gs, ps, n)
     = Inr (gs, ps @ [prompt_instruction env hat_item ''a red hat'' (Hotspot (Finite 600) (Finite 800))], n)"
  by (simp add: outfit_step_def hat_item_def js_trim_red_hat)

lemma outfit_step_blank: "outfit_step env blank_item vars = Inr vars"
  by (cases vars) (simp add: outfit_step_def blank_item_def js_trim_blank)

lemma generateLayeredOutfit_hat:
  "generateLayeredOutfit sample_env photoA [hat_item] = Inr ''data:image/png;base64,Wg==''"
  by (simp add: generateLayeredOutfit_def fileToPart_photoA and_then_Inr outfit_step_hat
      send_sample handleApiResponse_image_response)

lemma generateLayeredOutfit_blank:
  "generateLayeredOutfit sample_env photoA [blank_item] = Inl NoValidItemsError"
  by (simp add: generateLayeredOutfit_def fileToPart_photoA and_then_Inr outfit_step_blank)

lemma uploaded_current:
  "currentImage ((handleImageUpload initial_state photoA)\<lparr>clothingItems := cs\<rparr>) = Some photoA"
  by (simp add: currentImage_def js_index_def handleImageUpload_def)

lemma has_value_and_hotspot_hat: "has_value_and_hotspot hat_item"
  by (simp add: has_value_and_hotspot_def hat_item_def)

lemma has_value_and_hotspot_blank: "has_value_and_hotspot blank_item"
  by (simp add: has_value_and_hotspot_def blank_item_def)

lemma handleApplyOutfit_success:
  assumes "currentImage s = Some current"
    and "filter has_value_and_hotspot items \<noteq> []"
    and "generateLayeredOutfit env current (filter has_value_and_hotspot items) = Inr url"
    and "dataURLtoFile env url (''outfit-'' @ show_nat (now env) @ ''.png'') = Inr f"
  shows "handleApplyOutfit env s items
     = finish_loading
         ((addImageToHistory (s\<lparr>error := None\<rparr>) f)
            \<lparr>isOutfitApplied := True, displayHotspot := None, activeClothingItemId := None\<rparr>)"
  using assms by (simp add: handleApplyOutfit_def Let_def and_then_Inr)

lemma handleApplyOutfit_failure:
  assumes "currentImage s = Some current"
    and "filter has_value_and_hotspot items \<noteq> []"
    and "generateLayeredOutfit env current (filter has_value_and_hotspot items) = Inl e"
  shows "handleApplyOutfit env s items
     = finish_loading (s\<lparr>error := Some (''Failed to apply the outfit. '' @ error_message e)\<rparr>)"
  using assms by (simp add: handleApplyOutfit_def Let_def and_then_Inl)

lemma applied_state_eval:
  "history applied_state
     = [photoA, \<lparr>file_name = ''outfit-'' @ show_nat (now sample_env) @ ''.png'',
                 file_type = ''image/png'', file_data = ''Wg==''\<rparr>]
   \<and> historyIndex applied_state = 1
   \<and> isOutfitApplied applied_state
   \<and> clothingItems applied_state = [hat_item]"
proof -
  have eq: "applied_state
     = finish_loading
         ((addImageToHistory
             ((handleImageUpload initial_state photoA)\<lparr>clothingItems := [hat_item]\<rparr>
                \<lparr>error := None\<rparr>)
             \<lparr>file_name = ''outfit-'' @ show_nat (now sample_env) @ ''.png'',
              file_type = ''image/png'', file_data = ''Wg==''\<rparr>)
            \<lparr>isOutfitApplied := True, displayHotspot := None, activeClothingItemId := None\<rparr>)"
    unfolding applied_state_def
    by (rule handleApplyOutfit_success [where current = photoA
          and url = "''data:image/png;base64,Wg==''"])
      (simp_all add: uploaded_current has_value_and_hotspot_hat generateLayeredOutfit_hat
        dataURLtoFile_generated)
  show ?thesis
    by (simp add: eq finish_loading_def addImageToHistory_def js_slice0_def
        handleImageUpload_def Let_def)
qed

lemma generateVariations_beach:
  "generateVariations sample_env
     \<lparr>file_name = n, file_type = ''image/png'', file_data = ''Wg==''\<rparr> [''a beach'']
     = Inr [''data:image/png;base64,Wg=='']"
  by (simp add: generateVariations_def fileToPart_generated and_then_Inr variation_result_def
      send_sample handleApiResponse_image_response promise_all_def settleOrder_sample)

lemma generateCaptions_sample: "generateCaptions sample_env p cs = Inr fallback_captions"
  by (simp add: generateCaptions_def send_sample and_then_Inr parse_captions_def
      image_response_def)

lemma results_state_eval:
  "variationResults results_state
     = Some \<lparr>images = [Some ''data:image/png;base64,Wg==''], captions = fallback_captions\<rparr>
   \<and> isOutfitApplied results_state
   \<and> historyIndex results_state = 1
   \<and> length (history results_state) = 2"
  using applied_state_eval
  by (simp add: results_state_def handleGenerate_def currentImage_def js_index_def
      generateVariations_beach and_then_Inr generateCaptions_sample finish_loading_def
      Let_def)

section \<open>Properties of the edit history\<close>

lemma js_slice0_valid:
  "0 \<le> i \<Longrightarrow> i < int (length xs) \<Longrightarrow> js_slice0 xs (i + 1) = take (nat i + 1) xs"
  by (simp add: js_slice0_def Let_def min_def nat_add_distrib)

lemma cursor_valid_apply:
  "cursor_valid s \<Longrightarrow> cursor_valid (apply_history_op s op)"
proof (cases op)
  case (OpAppend f)
  then show ?thesis
    by (simp add: cursor_valid_def addImageToHistory_def Let_def)
next
  case OpUndo
  assume "cursor_valid s"
  with OpUndo show ?thesis
    by (auto simp: cursor_valid_def handleUndo_def canUndo_def split: if_splits)
next
  case OpRedo
  assume "cursor_valid s"
  with OpRedo show ?thesis
    by (auto simp: cursor_valid_def handleRedo_def canRedo_def split: if_splits)
next
  case OpReset
  assume "cursor_valid s"
  with OpReset show ?thesis
    by (auto simp: cursor_valid_def handleReset_def split: if_splits)
qed (simp_all add: cursor_valid_def handleImageUpload_def handleUploadNew_def)

lemma cursor_valid_foldl:
  "cursor_valid s \<Longrightarrow> cursor_valid (foldl apply_history_op s ops)"
  by (induction ops arbitrary: s) (simp_all add: cursor_valid_apply)

lemma cursor_valid_initial: "cursor_valid initial_state"
  by (simp add: cursor_valid_def initial_state_def)

lemma cursor_valid_run: "cursor_valid (run_history_ops initial_state ops)"
  unfolding run_history_ops_def by (rule cursor_valid_foldl [OF cursor_valid_initial])

lemma sample_ops_run:
  "history (run_history_ops initial_state sample_ops) = [photoA, photoX]
   \<and> historyIndex (run_history_ops initial_state sample_ops) = 1"
  by (simp add: run_history_ops_def sample_ops_def initial_state_def handleImageUpload_def
      addImageToHistory_def handleUndo_def handleRedo_def canUndo_def canRedo_def
      js_slice0_def Let_def)

text \<open>
  C1. Appending a new image version at a valid cursor keeps the entries up to and
  including the cursor, drops every later entry, puts the new version last and moves the
  cursor to it. On \<open>[A, B, C]\<close> with cursor 2, two undos followed by appending \<open>X\<close>
  give \<open>[A, X]\<close> with cursor 1.
\<close>

theorem addImageToHistory_discards_redo_branch:
  "(0 \<le> historyIndex s \<and> historyIndex s < int (length (history s)) \<longrightarrow>
      history (addImageToHistory s f) = take (nat (historyIndex s) + 1) (history s) @ [f]
      \<and> historyIndex (addImageToHistory s f) = historyIndex s + 1
      \<and> historyIndex (addImageToHistory s f)
          = int (length (history (addImageToHistory s f))) - 1)
   \<and> (history t = [A, B, C] \<and> historyIndex t = 2 \<longrightarrow>
      history (addImageToHistory (handleUndo (handleUndo t)) X) = [A, X]
      \<and> historyIndex (addImageToHistory (handleUndo (handleUndo t)) X) = 1)"
proof (intro conjI impI)
  assume v: "0 \<le> historyIndex s \<and> historyIndex s < int (length (history s))"
  then have sl: "js_slice0 (history s) (historyIndex s + 1)
      = take (nat (historyIndex s) + 1) (history s)"
    by (simp add: js_slice0_valid)
  show "history (addImageToHistory s f) = take (nat (historyIndex s) + 1) (history s) @ [f]"
    by (simp add: addImageToHistory_def Let_def sl)
  from v have "min (length (history s)) (nat (historyIndex s) + 1) = nat (historyIndex s) + 1"
    by linarith
  with v show "historyIndex (addImageToHistory s f) = historyIndex s + 1"
    by (simp add: addImageToHistory_def Let_def sl)
  show "historyIndex (addImageToHistory s f)
      = int (length (history (addImageToHistory s f))) - 1"
    by (simp add: addImageToHistory_def Let_def)
next
  assume t: "history t = [A, B, C] \<and> historyIndex t = 2"
  then have u: "history (handleUndo (handleUndo t)) = [A, B, C]
      \<and> historyIndex (handleUndo (handleUndo t)) = 0"
    by (simp add: handleUndo_def canUndo_def)
  then show "history (addImageToHistory (handleUndo (handleUndo t)) X) = [A, X]"
    by (simp add: addImageToHistory_def Let_def js_slice0_def)
  from u show "historyIndex (addImageToHistory (handleUndo (handleUndo t)) X) = 1"
    by (simp add: addImageToHistory_def Let_def js_slice0_def)
qed

theorem addImageToHistory_discards_redo_branch_witness:
  "0 \<le> historyIndex abc_state \<and> historyIndex abc_state < int (length (history abc_state))
   \<and> history (addImageToHistory abc_state photoX) = [photoA, photoB, photoC, photoX]
   \<and> historyIndex (addImageToHistory abc_state photoX) = 3
   \<and> history abc_state = [photoA, photoB, photoC] \<and> historyIndex abc_state = 2
   \<and> history (addImageToHistory (handleUndo (handleUndo abc_state)) photoX) = [photoA, photoX]
   \<and> historyIndex (addImageToHistory (handleUndo (handleUndo abc_state)) photoX) = 1"
  using addImageToHistory_discards_redo_branch
    [where s = abc_state and f = photoX and t = abc_state and A = photoA and B = photoB
       and C = photoC and X = photoX]
  by (simp add: abc_state_def)

text \<open>
  C2. From the empty history, after every sequence of uploads, appends, undos, redos,
  resets to the original and fresh starts, the cursor lies in \<open>[0, len - 1]\<close> when the
  sequence is not empty and is \<open>-1\<close> exactly when it is empty. Undo moves the cursor
  down by one exactly when it is above 0, redo moves it up by one exactly when it is below
  \<open>len - 1\<close>; neither changes the sequence.
\<close>

theorem cursor_stays_valid:
  "(history (run_history_ops initial_state ops) \<noteq> [] \<longrightarrow>
      0 \<le> historyIndex (run_history_ops initial_state ops)
      \<and> historyIndex (run_history_ops initial_state ops)
          \<le> int (length (history (run_history_ops initial_state ops))) - 1)
   \<and> (historyIndex (run_history_ops initial_state ops) = - 1
        \<longleftrightarrow> history (run_history_ops initial_state ops) = [])
   \<and> history (handleUndo s) = history s
   \<and> historyIndex (handleUndo s)
        = (if historyIndex s > 0 then historyIndex s - 1 else historyIndex s)
   \<and> history (handleRedo s) = history s
   \<and> historyIndex (handleRedo s)
        = (if historyIndex s < int (length (history s)) - 1 then historyIndex s + 1
           else historyIndex s)"
proof -
  have v: "cursor_valid (run_history_ops initial_state ops)"
    by (rule cursor_valid_run)
  have a: "history (run_history_ops initial_state ops) \<noteq> [] \<longrightarrow>
      0 \<le> historyIndex (run_history_ops initial_state ops)
      \<and> historyIndex (run_history_ops initial_state ops)
          \<le> int (length (history (run_history_ops initial_state ops))) - 1"
    using v by (auto simp: cursor_valid_def split: if_splits)
  have b: "historyIndex (run_history_ops initial_state ops) = - 1
        \<longleftrightarrow> history (run_history_ops initial_state ops) = []"
    using v by (auto simp: cursor_valid_def split: if_splits)
  have c: "history (handleUndo s) = history s
   \<and> historyIndex (handleUndo s)
        = (if historyIndex s > 0 then historyIndex s - 1 else historyIndex s)"
    by (simp add: handleUndo_def canUndo_def)
  have d: "history (handleRedo s) = history s
   \<and> historyIndex (handleRedo s)
        = (if historyIndex s < int (length (history s)) - 1 then historyIndex s + 1
           else historyIndex s)"
    by (simp add: handleRedo_def canRedo_def)
  from a b c d show ?thesis by blast
qed

theorem cursor_stays_valid_witness:
  "history (run_history_ops initial_state sample_ops) \<noteq> []
   \<and> 0 \<le> historyIndex (run_history_ops initial_state sample_ops)
   \<and> historyIndex (run_history_ops initial_state sample_ops)
        \<le> int (length (history (run_history_ops initial_state sample_ops))) - 1
   \<and> historyIndex (handleUndo abc_state) = 1
   \<and> historyIndex (handleRedo abc_state) = 2"
  using cursor_stays_valid [where ops = sample_ops and s = abc_state] sample_ops_run
  by (simp add: abc_state_def)

section \<open>Properties of the outfit composition state\<close>

text \<open>
  C8. Confirming an applied outfit empties the list of clothing items and clears the
  outfit-applied flag; the history and its cursor are untouched, and what the next append
  does to the history does not depend on the items that had been placed.
\<close>

theorem handleConfirmOutfit_clears_outfit:
  "clothingItems (handleConfirmOutfit s) = []
   \<and> isOutfitApplied (handleConfirmOutfit s) = False
   \<and> history (handleConfirmOutfit s) = history s
   \<and> historyIndex (handleConfirmOutfit s) = historyIndex s
   \<and> history (addImageToHistory (handleConfirmOutfit s) f) = history (addImageToHistory s f)
   \<and> historyIndex (addImageToHistory (handleConfirmOutfit s) f)
        = historyIndex (addImageToHistory s f)
   \<and> addImageToHistory (handleConfirmOutfit (s\<lparr>clothingItems := placed\<rparr>)) f
        = addImageToHistory (handleConfirmOutfit s) f"
  by (simp add: handleConfirmOutfit_def addImageToHistory_def Let_def)

lemma handleGenerate_frame:
  "history (handleGenerate env s source) = history s
   \<and> historyIndex (handleGenerate env s source) = historyIndex s
   \<and> isOutfitApplied (handleGenerate env s source) = isOutfitApplied s"
  by (simp add: handleGenerate_def finish_loading_def Let_def split: option.splits sum.splits)

lemma handleRefineRequest_frame:
  "history (handleRefineRequest env s p) = history s
   \<and> historyIndex (handleRefineRequest env s p) = historyIndex s
   \<and> isOutfitApplied (handleRefineRequest env s p) = isOutfitApplied s"
  by (simp add: handleRefineRequest_def Let_def split: option.splits sum.splits)

lemma refinement_modal_frame:
  "history (handleOpenRefinementModal s i) = history s
   \<and> historyIndex (handleOpenRefinementModal s i) = historyIndex s
   \<and> isOutfitApplied (handleOpenRefinementModal s i) = isOutfitApplied s
   \<and> history (handleCloseRefinementModal s) = history s
   \<and> historyIndex (handleCloseRefinementModal s) = historyIndex s
   \<and> isOutfitApplied (handleCloseRefinementModal s) = isOutfitApplied s"
  by (simp add: handleOpenRefinementModal_def handleCloseRefinementModal_def Let_def
      split: option.splits)

lemma handleImageClick_frame:
  "history (handleImageClick s e) = history s
   \<and> historyIndex (handleImageClick s e) = historyIndex s
   \<and> isOutfitApplied (handleImageClick s e) = isOutfitApplied s"
  by (simp add: handleImageClick_def split: option.splits)

lemma applied_on_last_frame:
  assumes "applied_on_last s"
    and "history s' = history s \<and> historyIndex s' = historyIndex s
         \<and> isOutfitApplied s' = isOutfitApplied s"
  shows "applied_on_last s'"
  using assms by (auto simp: applied_on_last_def)

lemma handleApplyOutfit_on_last:
  assumes "applied_on_last s"
  shows "applied_on_last (handleApplyOutfit env s items)"
proof (cases "currentImage s")
  case None
  with assms show ?thesis
    by (auto simp: handleApplyOutfit_def applied_on_last_def)
next
  case (Some current)
  then have idx: "0 \<le> historyIndex s \<and> historyIndex s < int (length (history s))"
    by (simp add: currentImage_def js_index_def split: if_splits)
  then have len: "length (js_slice0 (history s) (historyIndex s + 1)) = nat (historyIndex s + 1)"
    by (auto simp: js_slice0_def Let_def min_def)
  have new: "applied_on_last
      (finish_loading
         ((addImageToHistory (s\<lparr>error := None\<rparr>) f)
            \<lparr>isOutfitApplied := True, displayHotspot := None,
             activeClothingItemId := None\<rparr>))" for f
    using idx len
    by (simp add: applied_on_last_def finish_loading_def addImageToHistory_def Let_def)
  have old: "applied_on_last (finish_loading (s\<lparr>error := m\<rparr>))" for m
    using assms by (auto simp: applied_on_last_def finish_loading_def)
  have same: "applied_on_last (s\<lparr>error := m\<rparr>)" for m
    using assms by (auto simp: applied_on_last_def)
  from Some new old same show ?thesis
    by (simp add: handleApplyOutfit_def Let_def split: sum.splits)
qed

lemma handleSelectVariation_on_last:
  assumes "applied_on_last s"
  shows "applied_on_last (handleSelectVariation env s i)"
  using assms
  by (auto simp: handleSelectVariation_def applied_on_last_def finish_loading_def
      addImageToHistory_def Let_def split: option.splits sum.splits)

lemma history_buttons_on_last:
  assumes "applied_on_last s"
  shows "applied_on_last (handleUndo s) \<and> applied_on_last (handleRedo s)
     \<and> applied_on_last (handleReset s) \<and> applied_on_last (handleUploadNew s)"
  using assms
  by (auto simp: applied_on_last_def handleUndo_def handleRedo_def handleReset_def
      handleUploadNew_def canUndo_def canRedo_def)

lemma reachable_applied_on_last: "reachable s \<Longrightarrow> applied_on_last s"
proof (induction rule: reachable.induct)
  case start
  show ?case by (simp add: applied_on_last_def initial_state_def)
next
  case (upload s f)
  show ?case by (simp add: applied_on_last_def handleImageUpload_def)
next
  case (landing_upload s f)
  show ?case by (simp add: applied_on_last_def handleLandingPageUpload_def handleImageUpload_def)
next
  case (apply_outfit s env items)
  then show ?case by (simp add: handleApplyOutfit_on_last)
next
  case (confirm_outfit s)
  show ?case by (simp add: applied_on_last_def handleConfirmOutfit_def)
next
  case (generate s env source)
  from generate.IH handleGenerate_frame show ?case by (rule applied_on_last_frame)
next
  case (select_variation s env i)
  then show ?case by (simp add: handleSelectVariation_on_last)
next
  case (discard_variations s)
  then show ?case by (auto simp: applied_on_last_def handleDiscardVariations_def)
next
  case (open_refinement s i)
  then show ?case using refinement_modal_frame [of s i] by (auto simp: applied_on_last_def)
next
  case (close_refinement s)
  then show ?case using refinement_modal_frame [of s] by (auto simp: applied_on_last_def)
next
  case (refine s env p)
  from refine.IH handleRefineRequest_frame show ?case by (rule applied_on_last_frame)
next
  case (undo s)
  then show ?case by (simp add: history_buttons_on_last)
next
  case (redo s)
  then show ?case by (simp add: history_buttons_on_last)
next
  case (reset s)
  then show ?case by (simp add: history_buttons_on_last)
next
  case (upload_new s)
  then show ?case by (simp add: history_buttons_on_last)
next
  case (image_click s e)
  from image_click.IH handleImageClick_frame show ?case by (rule applied_on_last_frame)
next
  case (other s s')
  then show ?case by (auto simp: applied_on_last_def)
qed

text \<open>
  C9 (as amended). Confirming the outfit and starting over always leave the
  outfit-applied flag false. Undo leaves it false in every state the application can
  reach, also when there is nothing to undo. Redo leaves it false whenever there is a
  version to redo to, which is when its button is enabled; in a state the application can
  reach with the flag set there is none. Discarding the variations only clears the
  result set: the flag keeps its value.
\<close>

theorem outfit_flag_after_operations:
  "isOutfitApplied (handleConfirmOutfit s) = False
   \<and> isOutfitApplied (handleUploadNew s) = False
   \<and> (reachable s \<longrightarrow> isOutfitApplied (handleUndo s) = False)
   \<and> (canRedo s \<longrightarrow> isOutfitApplied (handleRedo s) = False)
   \<and> (reachable s \<and> isOutfitApplied s \<longrightarrow> \<not> canRedo s)
   \<and> isOutfitApplied (handleDiscardVariations s) = isOutfitApplied s
   \<and> handleDiscardVariations s = s\<lparr>variationResults := None\<rparr>"
proof (intro conjI impI)
  show "isOutfitApplied (handleConfirmOutfit s) = False"
    by (simp add: handleConfirmOutfit_def)
  show "isOutfitApplied (handleUploadNew s) = False"
    by (simp add: handleUploadNew_def)
  show "isOutfitApplied (handleDiscardVariations s) = isOutfitApplied s"
    by (simp add: handleDiscardVariations_def)
  show "handleDiscardVariations s = s\<lparr>variationResults := None\<rparr>"
    by (simp add: handleDiscardVariations_def)
next
  assume "reachable s"
  then have "applied_on_last s"
    by (rule reachable_applied_on_last)
  then show "isOutfitApplied (handleUndo s) = False"
    by (auto simp: applied_on_last_def handleUndo_def canUndo_def)
next
  assume "canRedo s"
  then show "isOutfitApplied (handleRedo s) = False"
    by (simp add: handleRedo_def)
next
  assume "reachable s \<and> isOutfitApplied s"
  then have "applied_on_last s" and "isOutfitApplied s"
    by (simp_all add: reachable_applied_on_last)
  then show "\<not> canRedo s"
    by (simp add: applied_on_last_def canRedo_def)
qed

lemma reachable_applied_state: "reachable applied_state"
  unfolding applied_state_def
proof (rule reachable.apply_outfit)
  have "reachable (handleImageUpload initial_state photoA)"
    by (rule reachable.upload) (rule reachable.start)
  then show "reachable ((handleImageUpload initial_state photoA)\<lparr>clothingItems := [hat_item]\<rparr>)"
    by (rule reachable.other) simp_all
qed

lemma reachable_results_state: "reachable results_state"
  unfolding results_state_def by (rule reachable.generate) (rule reachable_applied_state)

theorem outfit_flag_after_operations_witness:
  "reachable applied_state \<and> isOutfitApplied applied_state
   \<and> isOutfitApplied (handleUndo applied_state) = False
   \<and> \<not> canRedo applied_state
   \<and> canRedo (handleUndo applied_state)
   \<and> isOutfitApplied (handleRedo (handleUndo applied_state)) = False
   \<and> reachable initial_state \<and> handleUndo initial_state = initial_state
   \<and> isOutfitApplied (handleUndo initial_state) = False"
  using outfit_flag_after_operations [of applied_state]
    outfit_flag_after_operations [of "handleUndo applied_state"]
    outfit_flag_after_operations [of initial_state]
    reachable_applied_state reachable.start applied_state_eval
  by (simp add: handleUndo_def canUndo_def canRedo_def initial_state_def)

text \<open>
  The flag survives a discard: after uploading a photo, placing a described item, applying
  the outfit and generating a variation, the result set is shown and the flag is set;
  discarding the variations leaves the flag set.
\<close>

theorem discard_keeps_outfit_flag:
  "reachable results_state
   \<and> variationResults results_state \<noteq> None \<and> isOutfitApplied results_state
   \<and> isOutfitApplied (handleDiscardVariations results_state)"
  using results_state_eval reachable_results_state
  by (simp add: handleDiscardVariations_def)
section \<open>Properties of the placement click\<close>

lemma bits_bound: "n < 2 ^ k \<Longrightarrow> bits n \<le> k"
proof (induction k arbitrary: n)
  case 0
  then show ?case by (simp add: bits.simps)
next
  case (Suc k)
  show ?case
  proof (cases "n = 0")
    case True
    then show ?thesis by (simp add: bits.simps)
  next
    case False
    from Suc.prems have "n div 2 < 2 ^ k"
      by simp
    then have "bits (n div 2) \<le> k"
      by (rule Suc.IH)
    with False show ?thesis
      by (subst bits.simps) simp
  qed
qed

lemma bits_positive: "0 < n \<Longrightarrow> 0 < bits n"
  by (subst bits.simps) simp

lemma round_half_even_of_int: "round_half_even (of_int z) = z"
  by (simp add: round_half_even_def)

lemma round_half_even_below_half:
  assumes "of_int z \<le> y" and "y < of_int z + 1 / 2"
  shows "round_half_even y = z"
proof -
  from assms have "\<lfloor>y\<rfloor> = z"
    by (intro floor_unique) simp_all
  with assms show ?thesis
    by (simp add: round_half_even_def Let_def)
qed

lemma binary_exponent_from_floor:
  assumes "of_nat k \<le> x" and "x < of_nat k + 1" and "0 < k"
  shows "binary_exponent x = int (bits k) - 1"
proof -
  from assms have "\<lfloor>x\<rfloor> = int k"
    by (intro floor_unique) simp_all
  moreover from assms have "1 \<le> x"
    by (metis One_nat_def Suc_leI of_nat_1 of_nat_le_iff order_trans)
  ultimately show ?thesis
    by (simp add: binary_exponent_def)
qed

lemma to_binary64_normal:
  assumes "0 < x" and "binary_exponent x = e" and "- 1022 \<le> e"
    and "round_half_even (x / pow2 (e - 52)) = k"
    and "of_int k * pow2 (e - 52) < pow2 1024"
  shows "to_binary64 x = Finite (of_int k * pow2 (e - 52))"
  using assms by (simp add: to_binary64_def Let_def max_def)

lemma to_binary64_of_nat:
  assumes "n < 2 ^ 53"
  shows "to_binary64 (of_nat n) = Finite (of_nat n)"
proof (cases "n = 0")
  case True
  then show ?thesis by (simp add: to_binary64_def)
next
  case False
  define b where "b = bits n"
  define d where "d = 53 - b"
  define e where "e = int b - 1"
  from False assms have b: "0 < b" "b \<le> 53"
    by (simp_all add: b_def bits_positive bits_bound)
  from False have "binary_exponent (of_nat n) = int (bits n) - 1"
    by (intro binary_exponent_from_floor) simp_all
  then have e: "binary_exponent (of_nat n) = e"
    by (simp add: e_def b_def)
  from b have low: "- 1022 \<le> e"
    by (simp add: e_def)
  from b have u: "pow2 (e - 52) = 1 / 2 ^ d"
    by (auto simp: pow2_def d_def e_def nat_diff_distrib)
  have q: "(of_nat n :: rat) / (1 / 2 ^ d) = of_int (int n * 2 ^ d)"
    by simp
  have k: "round_half_even (of_nat n / pow2 (e - 52)) = int n * 2 ^ d"
    by (simp only: u q round_half_even_of_int)
  have r: "of_int (int n * 2 ^ d) * pow2 (e - 52) = (of_nat n :: rat)"
    by (simp add: u)
  have "(of_nat n :: rat) < 2 ^ 53"
    using assms by (metis of_nat_less_iff of_nat_numeral of_nat_power)
  also have "(2 :: rat) ^ 53 \<le> 2 ^ 1024"
    by (rule power_increasing) simp_all
  finally have "(of_nat n :: rat) < pow2 1024"
    by (simp add: pow2_def)
  then have small: "of_int (int n * 2 ^ d) * pow2 (e - 52) < pow2 1024"
    by (simp only: r)
  from False have "0 < (of_nat n :: rat)"
    by simp
  then have "to_binary64 (of_nat n) = Finite (of_int (int n * 2 ^ d) * pow2 (e - 52))"
    using e low k small by (rule to_binary64_normal)
  then show ?thesis
    by (simp only: r)
qed

lemma is_binary64_of_nat: "n < 2 ^ 53 \<Longrightarrow> is_binary64 (of_nat n)"
  by (simp add: is_binary64_def to_binary64_of_nat)

lemma exponent_uneven_scale: "binary_exponent (750 / 364) = 1"
  using binary_exponent_from_floor [of 2 "750 / 364"] by (simp add: bits.simps)

lemma exponent_uneven_product: "binary_exponent (91 * (4639697418307516 / 2 ^ 51)) = 7"
  using binary_exponent_from_floor [of 187 "91 * (4639697418307516 / 2 ^ 51)"]
  by (simp add: bits.simps)

lemma scale_uneven: "to_binary64 (750 / 364) = Finite (4639697418307516 / 2 ^ 51)"
proof -
  have "round_half_even (750 / 364 / pow2 (1 - 52)) = 4639697418307516"
    by (rule round_half_even_below_half) (simp_all add: pow2_def)
  with exponent_uneven_scale have "to_binary64 (750 / 364)
      = Finite (of_int 4639697418307516 * pow2 (1 - 52))"
    by (intro to_binary64_normal) (simp_all add: pow2_def)
  then show ?thesis
    by (simp add: pow2_def)
qed

lemma product_uneven:
  "to_binary64 (91 * (4639697418307516 / 2 ^ 51)) = Finite (6597069766655999 / 2 ^ 45)"
proof -
  have "round_half_even (91 * (4639697418307516 / 2 ^ 51) / pow2 (7 - 52))
      = 6597069766655999"
    by (rule round_half_even_below_half) (simp_all add: pow2_def)
  with exponent_uneven_product have "to_binary64 (91 * (4639697418307516 / 2 ^ 51))
      = Finite (of_int 6597069766655999 * pow2 (7 - 52))"
    by (intro to_binary64_normal) (simp_all add: pow2_def)
  then show ?thesis
    by (simp add: pow2_def)
qed

lemma round_half_up_of_int: "round_half_up (of_int z) = z"
proof -
  have "\<lfloor>(of_int z :: rat) + 1 / 2\<rfloor> = z"
    by (intro floor_unique) simp_all
  then show ?thesis
    by (simp only: round_half_up_def)
qed

lemma originalX_exact:
  assumes "offsetX e = Finite x" and "0 < clientWidth e"
    and "is_binary64 (of_nat (naturalWidth e) / of_nat (clientWidth e))"
    and "is_binary64 (x * (of_nat (naturalWidth e) / of_nat (clientWidth e)))"
  shows "originalX e
     = Finite (of_int (round_half_up
         (x * of_nat (naturalWidth e) / of_nat (clientWidth e))))"
  using assms
  by (simp add: originalX_def scaleX_def js_div_nat_def js_mul_def is_binary64_def
      round_half_up_def)

lemma originalY_exact:
  assumes "offsetY e = Finite y" and "0 < clientHeight e"
    and "is_binary64 (of_nat (naturalHeight e) / of_nat (clientHeight e))"
    and "is_binary64 (y * (of_nat (naturalHeight e) / of_nat (clientHeight e)))"
  shows "originalY e
     = Finite (of_int (round_half_up
         (y * of_nat (naturalHeight e) / of_nat (clientHeight e))))"
  using assms
  by (simp add: originalY_def scaleY_def js_div_nat_def js_mul_def is_binary64_def
      round_half_up_def)

lemma whole_scale_exact:
  assumes "0 < cw" and "cw dvd nw" and "nw < 2 ^ 53" and "k * nw < 2 ^ 53"
  shows "is_binary64 (of_nat nw / of_nat cw)
     \<and> is_binary64 (of_nat k * (of_nat nw / of_nat cw))"
proof -
  from assms(2) obtain q where nw: "nw = cw * q" ..
  with assms(1) have quot: "(of_nat nw :: rat) / of_nat cw = of_nat q"
    by simp
  from assms(1) nw have "q \<le> nw"
    by simp
  with assms(3) have "q < 2 ^ 53"
    by simp
  moreover from \<open>q \<le> nw\<close> have "k * q \<le> k * nw"
    by (rule mult_le_mono2)
  then have "k * q < 2 ^ 53"
    using assms(4) by (rule le_less_trans)
  then have "is_binary64 (of_nat (k * q))"
    by (rule is_binary64_of_nat)
  ultimately show ?thesis
    by (simp add: quot is_binary64_of_nat)
qed

lemma offsets_quadruple:
  "offsetX quadruple_click = Finite 150 \<and> offsetY quadruple_click = Finite 200"
  using to_binary64_of_nat [of 150] to_binary64_of_nat [of 200]
  by (simp add: offsetX_def offsetY_def quadruple_click_def)

lemma offsets_uneven: "offsetX uneven_click = Finite 91 \<and> offsetY uneven_click = Finite 0"
  using to_binary64_of_nat [of 91]
  by (simp add: offsetX_def offsetY_def uneven_click_def to_binary64_def)

lemma js_div_uneven: "js_div_nat 750 364 = Finite (4639697418307516 / 2 ^ 51)"
  using scale_uneven by (simp add: js_div_nat_def)

lemma js_mul_uneven:
  "js_mul (Finite 91) (js_div_nat 750 364) = Finite (6597069766655999 / 2 ^ 45)"
  using product_uneven by (simp add: js_div_uneven js_mul_def)

lemma originalX_uneven: "originalX uneven_click = Finite 187"
proof -
  have "\<lfloor>(6597069766655999 / 2 ^ 45 :: rat) + 1 / 2\<rfloor> = 187"
    by (intro floor_unique) simp_all
  then have "Math_round (js_mul (Finite 91) (js_div_nat 750 364)) = Finite 187"
    by (simp only: js_mul_uneven Math_round.simps) simp
  moreover have "originalX uneven_click
      = Math_round (js_mul (Finite 91) (js_div_nat 750 364))"
    using offsets_uneven by (simp add: originalX_def scaleX_def uneven_click_def)
  ultimately show ?thesis
    by simp
qed

lemma originalY_uneven: "originalY uneven_click = Finite 0"
proof -
  have "\<lfloor>(1 / 2 :: rat)\<rfloor> = 0"
    by (intro floor_unique) simp_all
  moreover have "originalY uneven_click = Math_round (js_mul (Finite 0) (js_div_nat 750 364))"
    using offsets_uneven by (simp add: originalY_def scaleY_def uneven_click_def)
  ultimately show ?thesis
    by (simp add: js_div_uneven js_mul_def to_binary64_def)
qed

lemma placing_state_fields:
  "activeClothingItemId placing_state = Some 3
   \<and> clothingItems placing_state = [unplaced_item]"
  by (simp add: placing_state_def)

text \<open>
  C7 (as amended). A click while an item is active stores as the placement point of that
  item, and of no other, the pair \<open>Math.round(ox * (nw / cw))\<close>,
  \<open>Math.round(oy * (nh / ch))\<close>, where the division and the multiplication are those of
  binary64 arithmetic, each rounded to the nearest number. This is
  \<open>round(ox * nw / cw)\<close>, \<open>round(oy * nh / ch)\<close> whenever the scale factor and its product
  with the offset are binary64 numbers, as they are when the offset is a whole number,
  the client size divides the natural size, and the natural size and its product with the
  offset are below \<open>2^53\<close>.
\<close>

theorem handleImageClick_placement_point:
  "(activeClothingItemId s = Some a \<longrightarrow>
      clothingItems (handleImageClick s e)
        = map (\<lambda>item. if item_id item = a
                       then item\<lparr>item_hotspot := Some (Hotspot (originalX e) (originalY e))\<rparr>
                       else item)
            (clothingItems s))
   \<and> originalX e
        = Math_round (js_mul (offsetX e) (js_div_nat (naturalWidth e) (clientWidth e)))
   \<and> originalY e
        = Math_round (js_mul (offsetY e) (js_div_nat (naturalHeight e) (clientHeight e)))
   \<and> (offsetX e = Finite x \<and> 0 < clientWidth e
        \<and> is_binary64 (of_nat (naturalWidth e) / of_nat (clientWidth e))
        \<and> is_binary64 (x * (of_nat (naturalWidth e) / of_nat (clientWidth e))) \<longrightarrow>
      originalX e
        = Finite (of_int (round_half_up
            (x * of_nat (naturalWidth e) / of_nat (clientWidth e)))))
   \<and> (offsetY e = Finite y \<and> 0 < clientHeight e
        \<and> is_binary64 (of_nat (naturalHeight e) / of_nat (clientHeight e))
        \<and> is_binary64 (y * (of_nat (naturalHeight e) / of_nat (clientHeight e))) \<longrightarrow>
      originalY e
        = Finite (of_int (round_half_up
            (y * of_nat (naturalHeight e) / of_nat (clientHeight e)))))
   \<and> (0 < cw \<and> cw dvd nw \<and> nw < 2 ^ 53 \<and> k * nw < 2 ^ 53 \<longrightarrow>
        is_binary64 (of_nat nw / of_nat cw)
        \<and> is_binary64 (of_nat k * (of_nat nw / of_nat cw)))"
proof (intro conjI impI)
  assume "activeClothingItemId s = Some a"
  then show "clothingItems (handleImageClick s e)
        = map (\<lambda>item. if item_id item = a
                       then item\<lparr>item_hotspot := Some (Hotspot (originalX e) (originalY e))\<rparr>
                       else item)
            (clothingItems s)"
    by (simp add: handleImageClick_def)
next
  show "originalX e
      = Math_round (js_mul (offsetX e) (js_div_nat (naturalWidth e) (clientWidth e)))"
    by (simp add: originalX_def scaleX_def)
  show "originalY e
      = Math_round (js_mul (offsetY e) (js_div_nat (naturalHeight e) (clientHeight e)))"
    by (simp add: originalY_def scaleY_def)
next
  assume "offsetX e = Finite x \<and> 0 < clientWidth e
        \<and> is_binary64 (of_nat (naturalWidth e) / of_nat (clientWidth e))
        \<and> is_binary64 (x * (of_nat (naturalWidth e) / of_nat (clientWidth e)))"
  then show "originalX e
        = Finite (of_int (round_half_up
            (x * of_nat (naturalWidth e) / of_nat (clientWidth e))))"
    by (simp add: originalX_exact)
next
  assume "offsetY e = Finite y \<and> 0 < clientHeight e
        \<and> is_binary64 (of_nat (naturalHeight e) / of_nat (clientHeight e))
        \<and> is_binary64 (y * (of_nat (naturalHeight e) / of_nat (clientHeight e)))"
  then show "originalY e
        = Finite (of_int (round_half_up
            (y * of_nat (naturalHeight e) / of_nat (clientHeight e))))"
    by (simp add: originalY_exact)
next
  assume exact: "0 < cw \<and> cw dvd nw \<and> nw < 2 ^ 53 \<and> k * nw < 2 ^ 53"
  then show "is_binary64 (of_nat nw / of_nat cw)"
    using whole_scale_exact [of cw nw k] by simp
  from exact show "is_binary64 (of_nat k * (of_nat nw / of_nat cw))"
    using whole_scale_exact [of cw nw k] by simp
qed

theorem handleImageClick_placement_point_witness:
  "activeClothingItemId placing_state = Some 3
   \<and> offsetX quadruple_click = Finite 150 \<and> offsetY quadruple_click = Finite 200
   \<and> naturalWidth quadruple_click = 1200 \<and> naturalHeight quadruple_click = 1600
   \<and> clientWidth quadruple_click = 300 \<and> clientHeight quadruple_click = 400
   \<and> originalX quadruple_click = Finite 600 \<and> originalY quadruple_click = Finite 800
   \<and> clothingItems (handleImageClick placing_state quadruple_click)
        = [unplaced_item\<lparr>item_hotspot := Some (Hotspot (Finite 600) (Finite 800))\<rparr>]"
proof -
  have rounds: "round_half_up 600 = 600 \<and> round_half_up 800 = 800"
    using round_half_up_of_int [of 600] round_half_up_of_int [of 800] by simp
  have sizes: "naturalWidth quadruple_click = 1200 \<and> naturalHeight quadruple_click = 1600
      \<and> clientWidth quadruple_click = 300 \<and> clientHeight quadruple_click = 400"
    by (simp add: quadruple_click_def)
  have id: "item_id unplaced_item = 3"
    by (simp add: unplaced_item_def)
  show ?thesis
    using
      handleImageClick_placement_point
        [where s = placing_state and e = quadruple_click and a = 3 and x = 150
           and y = 200 and cw = 300 and nw = 1200 and k = 150]
      handleImageClick_placement_point
        [where s = placing_state and e = quadruple_click and a = 3 and x = 150
           and y = 200 and cw = 400 and nw = 1600 and k = 200]
      offsets_quadruple placing_state_fields
    by (simp add: sizes rounds id)
qed

text \<open>
  A click at offset 91 across a 364 pixel wide rendering of a 750 pixel wide image: the
  scale factor \<open>750 / 364\<close> is rounded down to a binary64 number, its product with 91
  falls just below 187.5, and the stored abscissa is 187, where \<open>91 * 750 / 364\<close> is
  exactly 187.5 and rounds to 188.
\<close>

theorem scaled_point_rounds_down:
  "activeClothingItemId placing_state = Some 3
   \<and> offsetX uneven_click = Finite 91
   \<and> naturalWidth uneven_click = 750 \<and> clientWidth uneven_click = 364
   \<and> js_div_nat 750 364 = Finite (4639697418307516 / 2 ^ 51)
   \<and> js_mul (Finite 91) (js_div_nat 750 364) = Finite (6597069766655999 / 2 ^ 45)
   \<and> map item_hotspot (clothingItems (handleImageClick placing_state uneven_click))
        = [Some (Hotspot (Finite 187) (Finite 0))]
   \<and> (91 * 750 / 364 :: rat) = 375 / 2
   \<and> round_half_up (91 * 750 / 364) = 188
   \<and> round_half_even (91 * 750 / 364) = 188"
proof -
  have "\<lfloor>(91 * 750 / 364 :: rat) + 1 / 2\<rfloor> = 188"
    by (intro floor_unique) simp_all
  then have up: "round_half_up (91 * 750 / 364) = 188"
    by (simp only: round_half_up_def)
  have "\<lfloor>(91 * 750 / 364 :: rat)\<rfloor> = 187"
    by (intro floor_unique) simp_all
  then have even: "round_half_even (91 * 750 / 364) = 188"
    by (simp add: round_half_even_def Let_def)
  have sizes: "naturalWidth uneven_click = 750 \<and> clientWidth uneven_click = 364"
    by (simp add: uneven_click_def)
  have stored: "map item_hotspot (clothingItems (handleImageClick placing_state uneven_click))
      = [Some (Hotspot (Finite 187) (Finite 0))]"
    using placing_state_fields
    by (simp add: handleImageClick_def originalX_uneven originalY_uneven unplaced_item_def)
  have exact: "(91 * 750 / 364 :: rat) = 375 / 2"
    by simp
  from placing_state_fields offsets_uneven sizes js_div_uneven js_mul_uneven stored exact up even
  show ?thesis
    by (simp only: simp_thms)
qed
section \<open>Properties of the generation service\<close>

text \<open>
  C4. A response is interpreted in this order of priority. A block reason in the prompt
  feedback makes the operation fail with the blocked error, which carries the reason.
  Otherwise an image payload is returned as the data URI
  \<open>data:<mediaType>;base64,<data>\<close>. Otherwise a completion reason that is present and
  is not \<open>STOP\<close> makes it fail with the generation-stopped error, which carries the
  reason. Otherwise it fails with the no-image error, which includes the text the model
  returned, if any.
\<close>

theorem handleApiResponse_priority:
  "(promptFeedback response = Some fb \<and> blockReason fb = Some reason \<and> reason \<noteq> [] \<longrightarrow>
      handleApiResponse response ctx = Inl (BlockedError reason (blockReasonMessage fb))
      \<and> error_message (BlockedError reason (blockReasonMessage fb))
          = ''Request was blocked. Reason: '' @ reason @ ''. ''
              @ (case blockReasonMessage fb of Some m \<Rightarrow> m | None \<Rightarrow> ''''))
   \<and> ((\<forall>f r. promptFeedback response = Some f \<and> blockReason f = Some r \<longrightarrow> r = []) \<longrightarrow>
      (imagePartFromResponse response = Some img \<longrightarrow>
         handleApiResponse response ctx
           = Inr (''data:'' @ mimeType img @ '';base64,'' @ data img))
      \<and> (imagePartFromResponse response = None \<and> firstFinishReason response = Some fr
           \<and> fr \<noteq> [] \<and> fr \<noteq> ''STOP'' \<longrightarrow>
         handleApiResponse response ctx = Inl (GenerationStoppedError ctx fr)
         \<and> error_message (GenerationStoppedError ctx fr)
             = ''Image generation for '' @ ctx @ '' stopped unexpectedly. Reason: '' @ fr
                 @ ''. This often relates to safety settings.'')
      \<and> (imagePartFromResponse response = None
           \<and> (firstFinishReason response = None \<or> firstFinishReason response = Some []
                \<or> firstFinishReason response = Some ''STOP'') \<longrightarrow>
         handleApiResponse response ctx
           = Inl (NoImageReturnedError ctx
                    (if truthy_string (map_option js_trim (response_text response))
                     then map_option js_trim (response_text response) else None))
         \<and> (response_text response = Some raw \<and> js_trim raw \<noteq> [] \<longrightarrow>
              error_message (NoImageReturnedError ctx (Some (js_trim raw)))
                = ''The AI model did not return an image for the '' @ ctx @ ''. ''
                    @ ''The model responded with text: '' @ dquote @ js_trim raw @ dquote)))"
proof (intro conjI impI)
  assume "promptFeedback response = Some fb \<and> blockReason fb = Some reason \<and> reason \<noteq> []"
  then show "handleApiResponse response ctx = Inl (BlockedError reason (blockReasonMessage fb))"
    by (simp add: handleApiResponse_def)
next
  show "error_message (BlockedError reason (blockReasonMessage fb))
          = ''Request was blocked. Reason: '' @ reason @ ''. ''
              @ (case blockReasonMessage fb of Some m \<Rightarrow> m | None \<Rightarrow> '''')"
    by (simp add: error_message_def)
next
  assume nb: "\<forall>f r. promptFeedback response = Some f \<and> blockReason f = Some r \<longrightarrow> r = []"
  then have un: "handleApiResponse response c = interpretUnblocked response c" for c
    by (auto simp: handleApiResponse_def split: option.splits)
  {
    assume "imagePartFromResponse response = Some img"
    then show "handleApiResponse response ctx
        = Inr (''data:'' @ mimeType img @ '';base64,'' @ data img)"
      by (simp add: un interpretUnblocked_def)
  next
    assume "imagePartFromResponse response = None \<and> firstFinishReason response = Some fr
        \<and> fr \<noteq> [] \<and> fr \<noteq> ''STOP''"
    then show "handleApiResponse response ctx = Inl (GenerationStoppedError ctx fr)"
      by (simp add: un interpretUnblocked_def)
  next
    show "error_message (GenerationStoppedError ctx fr)
        = ''Image generation for '' @ ctx @ '' stopped unexpectedly. Reason: '' @ fr
            @ ''. This often relates to safety settings.''"
      by (simp add: error_message_def)
  next
    assume "imagePartFromResponse response = None
        \<and> (firstFinishReason response = None \<or> firstFinishReason response = Some []
             \<or> firstFinishReason response = Some ''STOP'')"
    then show "handleApiResponse response ctx
        = Inl (NoImageReturnedError ctx
                 (if truthy_string (map_option js_trim (response_text response))
                  then map_option js_trim (response_text response) else None))"
      by (auto simp: un interpretUnblocked_def Let_def)
  next
    show "error_message (NoImageReturnedError ctx (Some (js_trim raw)))
        = ''The AI model did not return an image for the '' @ ctx @ ''. ''
            @ ''The model responded with text: '' @ dquote @ js_trim raw @ dquote"
      by (simp add: error_message_def)
  }
qed

theorem handleApiResponse_priority_witness:
  "handleApiResponse blocked_response ''edit'' = Inl (BlockedError ''SAFETY'' None)
   \<and> imagePartFromResponse blocked_response \<noteq> None
   \<and> handleApiResponse image_response ''edit'' = Inr ''data:image/png;base64,Wg==''
   \<and> handleApiResponse stopped_response ''edit''
        = Inl (GenerationStoppedError ''edit'' ''MAX_TOKENS'')
   \<and> handleApiResponse text_response ''edit''
        = Inl (NoImageReturnedError ''edit'' (Some ''Sorry.''))
   \<and> error_message (NoImageReturnedError ''edit'' (Some ''Sorry.''))
        = ''The AI model did not return an image for the edit. ''
            @ ''The model responded with text: '' @ dquote @ ''Sorry.'' @ dquote
   \<and> handleApiResponse blank_text_response ''edit'' = Inl (NoImageReturnedError ''edit'' None)"
  using
    handleApiResponse_priority
      [where response = blocked_response and ctx = "''edit''" and reason = "''SAFETY''"
         and fb = "\<lparr>blockReason = Some ''SAFETY'', blockReasonMessage = None\<rparr>"]
    handleApiResponse_priority
      [where response = image_response and ctx = "''edit''"
         and img = "\<lparr>mimeType = ''image/png'', data = ''Wg==''\<rparr>"]
    handleApiResponse_priority
      [where response = stopped_response and ctx = "''edit''" and fr = "''MAX_TOKENS''"]
    handleApiResponse_priority
      [where response = text_response and ctx = "''edit''" and raw = "'' Sorry. ''"]
    handleApiResponse_priority [where response = blank_text_response and ctx = "''edit''"]
  by (simp add: blocked_response_def image_response_def stopped_response_def
      text_response_def blank_text_response_def imagePartFromResponse_def
      firstFinishReason_def image_part_def text_part_def truthy_string_def js_trim_sorry
      js_trim_no_break_ideographic)

text \<open>
  C6. When the caption exchange returns a response whose text is missing, is rejected by
  \<open>JSON.parse\<close>, or parses to a value without an array under \<open>captions\<close>, caption
  synthesis returns the built-in list of four captions and does not fail.
\<close>

theorem generateCaptions_falls_back:
  "generateContent env (JsonRequest text_model (caption_prompt clothingPrompt contexts))
     = Inr response
   \<and> (response_text response = None
        \<or> (\<exists>t. response_text response = Some t
              \<and> (JSON_parse env (js_trim t) = None
                   \<or> (\<exists>v. JSON_parse env (js_trim t) = Some v
                         \<and> (\<forall>kvs vs. v = JObject kvs
                               \<longrightarrow> map_of kvs ''captions'' \<noteq> Some (JArray vs))))))
   \<longrightarrow> generateCaptions env clothingPrompt contexts = Inr fallback_captions
       \<and> length fallback_captions = 4"
proof (intro impI conjI)
  assume h: "generateContent env (JsonRequest text_model (caption_prompt clothingPrompt contexts))
        = Inr response
   \<and> (response_text response = None
        \<or> (\<exists>t. response_text response = Some t
              \<and> (JSON_parse env (js_trim t) = None
                   \<or> (\<exists>v. JSON_parse env (js_trim t) = Some v
                         \<and> (\<forall>kvs vs. v = JObject kvs
                               \<longrightarrow> map_of kvs ''captions'' \<noteq> Some (JArray vs))))))"
  have no_array: "captions_array v = None"
    if "\<forall>kvs vs. v = JObject kvs \<longrightarrow> map_of kvs ''captions'' \<noteq> Some (JArray vs)" for v
    using that by (cases v) (auto split: option.splits json.splits)
  from h have "parse_captions env response = None"
    by (auto simp: parse_captions_def no_array)
  with h show "generateCaptions env clothingPrompt contexts = Inr fallback_captions"
    by (simp add: generateCaptions_def send_def and_then_Inr)
next
  show "length fallback_captions = 4"
    by (simp add: fallback_captions_def)
qed

theorem generateCaptions_falls_back_witness:
  "generateCaptions no_captions_env ''a red hat'' [''a beach''] = Inr fallback_captions
   \<and> generateCaptions malformed_env ''a red hat'' [''a beach''] = Inr fallback_captions
   \<and> length fallback_captions = 4"
proof -
  have trim1: "js_trim '' {} '' = ''{}''"
    by (rule js_trim_braces)
  have a: "generateCaptions no_captions_env ''a red hat'' [''a beach''] = Inr fallback_captions
      \<and> length fallback_captions = 4"
    by (rule generateCaptions_falls_back
          [where env = no_captions_env
             and response = "\<lparr>promptFeedback = None, candidates = None,
                              response_text = Some '' {} ''\<rparr>", rule_format])
      (simp add: no_captions_env_def trim1)
  have b: "generateCaptions malformed_env ''a red hat'' [''a beach''] = Inr fallback_captions
      \<and> length fallback_captions = 4"
    by (rule generateCaptions_falls_back
          [where env = malformed_env and response = text_response, rule_format])
      (simp add: malformed_env_def sample_env_def text_response_def)
  from a b show ?thesis by simp
qed

section \<open>Properties of the batch of contextual variations\<close>

lemma promise_all_fulfilled: "promise_all order (map Inr vs) = Inr vs"
proof -
  have none: "List.find (\<lambda>i. i < length (map Inr vs) \<and> isl (map Inr vs ! i))
      (order @ [0..<length (map Inr vs)]) = None"
    by (simp add: find_None_iff)
  show ?thesis
    unfolding promise_all_def none by (simp add: o_def)
qed

lemma promise_all_rejected:
  assumes "Inl e \<in> set rs"
  shows "\<exists>e'. promise_all order rs = Inl e'"
proof -
  from assms obtain i where i: "i < length rs" "rs ! i = Inl e"
    by (auto simp: in_set_conv_nth)
  then have "\<exists>x \<in> set (order @ [0..<length rs]). x < length rs \<and> isl (rs ! x)"
    by (intro bexI [of _ i]) simp_all
  then have "List.find (\<lambda>i. i < length rs \<and> isl (rs ! i)) (order @ [0..<length rs]) \<noteq> None"
    by (auto simp: find_None_iff)
  then show ?thesis
    by (auto simp: promise_all_def)
qed

lemma all_Inr_map: "\<forall>r \<in> set rs. \<not> isl r \<Longrightarrow> map (Inr \<circ> projr) rs = rs"
  by (induction rs) (auto simp: sum.collapse)

lemma promise_all_Inr_iff: "promise_all order rs = Inr vs \<longleftrightarrow> rs = map Inr vs"
proof
  assume "rs = map Inr vs"
  then show "promise_all order rs = Inr vs"
    by (simp add: promise_all_fulfilled)
next
  assume ok: "promise_all order rs = Inr vs"
  have none: "\<forall>r \<in> set rs. \<not> isl r"
  proof (intro ballI notI)
    fix r
    assume "r \<in> set rs" "isl r"
    then have "Inl (projl r) \<in> set rs"
      by simp
    then obtain e' where "promise_all order rs = Inl e'"
      using promise_all_rejected by blast
    with ok show False by simp
  qed
  then have nf: "List.find (\<lambda>i. i < length rs \<and> isl (rs ! i)) (order @ [0..<length rs]) = None"
    by (auto simp: find_None_iff)
  from ok have "vs = map projr rs"
    unfolding promise_all_def nf by simp
  with none show "rs = map Inr vs"
    by (simp add: all_Inr_map)
qed

lemma list_all2_results:
  "list_all2 (\<lambda>c u. f c = Inr u) cs us \<longleftrightarrow> map f cs = map Inr us"
proof (induction cs arbitrary: us)
  case Nil
  then show ?case by auto
next
  case (Cons c cs)
  then show ?case by (cases us) auto
qed

lemma generateVariations_Inr_iff:
  "generateVariations env img contexts = Inr imgs \<longleftrightarrow>
     contexts \<noteq> [] \<and>
     (\<exists>p. fileToPart env img = Inr p
        \<and> list_all2 (\<lambda>c u. variation_result env p c = Inr u) contexts imgs)"
proof (cases "contexts = []")
  case True
  then show ?thesis by (simp add: generateVariations_def)
next
  case False
  show ?thesis
  proof (cases "fileToPart env img")
    case (Inl e)
    with False show ?thesis by (simp add: generateVariations_def and_then_Inl)
  next
    case (Inr p)
    with False show ?thesis
      by (simp add: generateVariations_def and_then_Inr promise_all_Inr_iff list_all2_results)
  qed
qed




lemma variation_result_sample:
  "variation_result sample_env p c = Inr ''data:image/png;base64,Wg==''"
  by (simp add: variation_result_def send_sample and_then_Inr handleApiResponse_image_response)





section \<open>Properties of layered-outfit synthesis\<close>

lemma fileToPart_not_NoValidItems: "fileToPart env f \<noteq> Inl NoValidItemsError"
  by (auto simp: fileToPart_def and_then_def parse_data_url_def Let_def
      split: sum.splits option.splits if_splits)

lemma handleApiResponse_not_NoValidItems: "handleApiResponse r c \<noteq> Inl NoValidItemsError"
  by (auto simp: handleApiResponse_def interpretUnblocked_def Let_def split: option.splits)

lemma send_not_NoValidItems: "send env req \<noteq> Inl NoValidItemsError"
  by (auto simp: send_def split: sum.splits)

lemma contributes_cases:
  assumes "contributes_instruction item"
  shows "(\<exists>h f. item_hotspot item = Some h \<and> item_source item = Upload
            \<and> item_value item = FileValue f)
       \<or> (\<exists>h t. item_hotspot item = Some h \<and> item_source item = Prompt
            \<and> item_value item = TextValue t \<and> js_trim t \<noteq> [])"
  using assms
  by (cases "item_value item") (auto simp: contributes_instruction_def truthy_string_def)

lemma outfit_step_skip:
  assumes "\<not> contributes_instruction item"
  shows "outfit_step env item vars = Inr vars"
proof (cases vars)
  case (fields gs ps n)
  show ?thesis
  proof (cases "item_hotspot item")
    case None
    then show ?thesis by (simp add: outfit_step_def fields)
  next
    case (Some h)
    with assms show ?thesis
      by (cases "item_value item"; cases "item_source item")
        (simp_all add: outfit_step_def fields contributes_instruction_def truthy_string_def)
  qed
qed

lemma outfit_step_upload:
  assumes "item_hotspot item = Some h" and "item_source item = Upload"
    and "item_value item = FileValue f"
  shows "outfit_step env item (gs, ps, n)
     = and_then (fileToPart env f)
         (\<lambda>p. Inr (gs @ [p], ps @ [upload_instruction env item (Suc n) h], Suc n))"
  using assms by (simp add: outfit_step_def)

lemma outfit_step_prompt:
  assumes "item_hotspot item = Some h" and "item_source item = Prompt"
    and "item_value item = TextValue t" and "js_trim t \<noteq> []"
  shows "outfit_step env item (gs, ps, n) = Inr (gs, ps @ [prompt_instruction env item t h], n)"
  using assms by (simp add: outfit_step_def)

lemma outfit_loop_instructions:
  "outfit_loop env items (gs, ps, n) = Inr (gs', ps', n')
   \<Longrightarrow> ps' = ps @ instructions_from env n (filter contributes_instruction items)"
proof (induction items arbitrary: gs ps n)
  case Nil
  then show ?case by simp
next
  case (Cons item rest)
  show ?case
  proof (cases "contributes_instruction item")
    case False
    then have "outfit_step env item (gs, ps, n) = Inr (gs, ps, n)"
      by (rule outfit_step_skip)
    with Cons.prems have rest: "outfit_loop env rest (gs, ps, n) = Inr (gs', ps', n')"
      by simp
    from Cons.IH [OF rest] False show ?thesis
      by simp
  next
    case True
    from contributes_cases [OF True] show ?thesis
    proof (elim disjE exE conjE)
      fix h f
      assume a: "item_hotspot item = Some h" "item_source item = Upload"
        "item_value item = FileValue f"
      from Cons.prems obtain p where p: "fileToPart env f = Inr p"
        and rest: "outfit_loop env rest
            (gs @ [p], ps @ [upload_instruction env item (Suc n) h], Suc n) = Inr (gs', ps', n')"
        by (cases "fileToPart env f")
          (simp_all add: outfit_step_upload [OF a] and_then_Inl and_then_Inr)
      from Cons.IH [OF rest] True a show ?thesis
        by simp
    next
      fix h t
      assume a: "item_hotspot item = Some h" "item_source item = Prompt"
        "item_value item = TextValue t" "js_trim t \<noteq> []"
      from Cons.prems have rest: "outfit_loop env rest
            (gs, ps @ [prompt_instruction env item t h], n) = Inr (gs', ps', n')"
        by (simp add: outfit_step_prompt [OF a])
      from Cons.IH [OF rest] True a show ?thesis
        by simp
    qed
  qed
qed

lemma instructions_from_length:
  "\<forall>item \<in> set items. contributes_instruction item
   \<Longrightarrow> length (instructions_from env n items) = length items"
proof (induction items arbitrary: n)
  case Nil
  then show ?case by simp
next
  case (Cons item rest)
  then have "contributes_instruction item"
    by simp
  from contributes_cases [OF this] Cons show ?case
    by auto
qed

lemma outfit_loop_returns:
  assumes "\<forall>item f. item \<in> set items \<and> contributes_instruction item
             \<and> item_source item = Upload \<and> item_value item = FileValue f
             \<longrightarrow> (\<exists>p. fileToPart env f = Inr p)"
  shows "\<exists>gs' ps' n'. outfit_loop env items (gs, ps, n) = Inr (gs', ps', n')"
  using assms
proof (induction items arbitrary: gs ps n)
  case Nil
  then show ?case by simp
next
  case (Cons item rest)
  have ih: "\<exists>gs' ps' n'. outfit_loop env rest (a, b, c) = Inr (gs', ps', n')" for a b c
  proof (rule Cons.IH)
    show "\<forall>item f. item \<in> set rest \<and> contributes_instruction item
             \<and> item_source item = Upload \<and> item_value item = FileValue f
             \<longrightarrow> (\<exists>p. fileToPart env f = Inr p)"
      using Cons.prems by auto
  qed
  show ?case
  proof (cases "contributes_instruction item")
    case False
    then show ?thesis
      using ih by (simp add: outfit_step_skip)
  next
    case True
    from contributes_cases [OF True] show ?thesis
    proof (elim disjE exE conjE)
      fix h f
      assume a: "item_hotspot item = Some h" "item_source item = Upload"
        "item_value item = FileValue f"
      with True Cons.prems obtain p where "fileToPart env f = Inr p"
        by force
      then show ?thesis
        using ih by (simp add: outfit_step_upload [OF a] and_then_Inr)
    next
      fix h t
      assume a: "item_hotspot item = Some h" "item_source item = Prompt"
        "item_value item = TextValue t" "js_trim t \<noteq> []"
      show ?thesis
        using ih by (simp add: outfit_step_prompt [OF a])
    qed
  qed
qed

lemma outfit_loop_fails:
  "outfit_loop env items (gs, ps, n) = Inl e
   \<Longrightarrow> e \<noteq> NoValidItemsError \<and> filter contributes_instruction items \<noteq> []"
proof (induction items arbitrary: gs ps n)
  case Nil
  then show ?case by simp
next
  case (Cons item rest)
  show ?case
  proof (cases "contributes_instruction item")
    case False
    with Cons.prems have "outfit_loop env rest (gs, ps, n) = Inl e"
      by (simp add: outfit_step_skip)
    from Cons.IH [OF this] False show ?thesis
      by simp
  next
    case True
    from contributes_cases [OF True] have "e \<noteq> NoValidItemsError"
    proof (elim disjE exE conjE)
      fix h f
      assume a: "item_hotspot item = Some h" "item_source item = Upload"
        "item_value item = FileValue f"
      show ?thesis
      proof (cases "fileToPart env f")
        case (Inl e')
        with Cons.prems have "e = e'"
          by (simp add: outfit_step_upload [OF a] and_then_Inl)
        with Inl fileToPart_not_NoValidItems [of env f] show ?thesis
          by auto
      next
        case (Inr p)
        with Cons.prems have "outfit_loop env rest
            (gs @ [p], ps @ [upload_instruction env item (Suc n) h], Suc n) = Inl e"
          by (simp add: outfit_step_upload [OF a] and_then_Inr)
        from Cons.IH [OF this] show ?thesis
          by simp
      qed
    next
      fix h t
      assume a: "item_hotspot item = Some h" "item_source item = Prompt"
        "item_value item = TextValue t" "js_trim t \<noteq> []"
      from Cons.prems have "outfit_loop env rest
            (gs, ps @ [prompt_instruction env item t h], n) = Inl e"
        by (simp add: outfit_step_prompt [OF a])
      from Cons.IH [OF this] show ?thesis
        by simp
    qed
    with True show ?thesis
      by simp
  qed
qed

lemma NoValidItems_iff:
  assumes "fileToPart env baseImage = Inr part"
  shows "generateLayeredOutfit env baseImage items = Inl NoValidItemsError
     \<longleftrightarrow> filter contributes_instruction items = []"
proof (cases "outfit_loop env items ([], [], 0)")
  case (Inl e)
  from outfit_loop_fails [OF Inl] Inl assms show ?thesis
    by (simp add: generateLayeredOutfit_def and_then_Inr and_then_Inl)
next
  case (Inr vars)
  obtain gs ps n where vars: "vars = (gs, ps, n)"
    by (cases vars)
  from Inr vars have ps: "ps = instructions_from env 0 (filter contributes_instruction items)"
    using outfit_loop_instructions [of env items "[]" "[]" 0 gs ps n] by simp
  then have len: "length ps = length (filter contributes_instruction items)"
    by (simp add: instructions_from_length)
  show ?thesis
  proof (cases "filter contributes_instruction items = []")
    case True
    with len have "ps = []"
      by simp
    with True Inr vars assms show ?thesis
      by (simp add: generateLayeredOutfit_def and_then_Inr)
  next
    case False
    with len have "length ps \<noteq> 0"
      by simp
    with Inr vars assms have "generateLayeredOutfit env baseImage items
        = and_then (send env (outfit_request part gs ps))
            (\<lambda>response. handleApiResponse response ''layered-outfit'')"
      by (simp add: generateLayeredOutfit_def and_then_Inr)
    moreover have "and_then (send env (outfit_request part gs ps))
            (\<lambda>response. handleApiResponse response ''layered-outfit'')
        \<noteq> Inl NoValidItemsError"
      using send_not_NoValidItems [of env "outfit_request part gs ps"]
        handleApiResponse_not_NoValidItems
      by (cases "send env (outfit_request part gs ps)")
        (simp_all add: and_then_Inl and_then_Inr)
    ultimately show ?thesis
      using False by simp
  qed
qed

lemma parse_Qg: "parse_data_url ''data:image/png;base64,Qg=='' = Inr (''image/png'', ''Qg=='')"
  by (simp add: parse_data_url_def until_semicolon_def Let_def)

lemma fileToPart_photoB:
  "fileToPart sample_env photoB = Inr \<lparr>mimeType = ''image/png'', data = ''Qg==''\<rparr>"
  using parse_Qg
  by (simp add: fileToPart_def sample_env_def photoB_def SUPPORTED_MIME_TYPES_def and_then_def)

lemma outfit_step_unplaced: "outfit_step env unplaced_item vars = Inr vars"
  by (cases vars) (simp add: outfit_step_def unplaced_item_def)

lemma outfit_step_jacket:
  "outfit_step sample_env jacket_item (gs, ps, n)
     = Inr (gs @ [\<lparr>mimeType = ''image/png'', data = ''Qg==''\<rparr>],
            ps @ [upload_instruction sample_env jacket_item (Suc n) (Hotspot (Finite 300) (Finite 400))], Suc n)"
proof -
  have "outfit_step sample_env jacket_item (gs, ps, n)
      = and_then (fileToPart sample_env photoB)
          (\<lambda>p. Inr (gs @ [p], ps @ [upload_instruction sample_env jacket_item (Suc n) (Hotspot (Finite 300) (Finite 400))],
                    Suc n))"
    by (simp add: outfit_step_def jacket_item_def)
  then show ?thesis
    by (simp add: fileToPart_photoB and_then_Inr)
qed

lemma outfit_loop_mixed:
  "outfit_loop sample_env mixed_items ([], [], 0)
     = Inr ([\<lparr>mimeType = ''image/png'', data = ''Qg==''\<rparr>],
            [prompt_instruction sample_env hat_item ''a red hat'' (Hotspot (Finite 600) (Finite 800)),
             upload_instruction sample_env jacket_item 1 (Hotspot (Finite 300) (Finite 400))], 1)"
  by (simp add: mixed_items_def outfit_step_hat outfit_step_unplaced outfit_step_blank
      outfit_step_jacket)

lemma contributes_samples:
  "contributes_instruction hat_item \<and> contributes_instruction jacket_item
   \<and> \<not> contributes_instruction unplaced_item \<and> \<not> contributes_instruction blank_item"
  by (simp add: contributes_instruction_def hat_item_def jacket_item_def unplaced_item_def
      blank_item_def js_trim_red_hat js_trim_blank truthy_string_def)

lemma contributes_ideographic: "\<not> contributes_instruction ideographic_item"
  by (simp add: contributes_instruction_def ideographic_item_def js_trim_ideographic
      truthy_string_def)

lemma hat_instruction_text:
  "prompt_instruction sample_env hat_item ''a red hat'' (Hotspot (Finite 600) (Finite 800))
     = ''- A Hat described as '' @ dquote @ ''a red hat'' @ dquote
         @ '' should be placed on the person near coordinates (x: 600, y: 800).''"
proof -
  have "show_nat 600 = ''600''" and "show_nat 800 = ''800''"
    by (simp_all add: show_nat.simps)
  then show ?thesis
    by (simp add: prompt_instruction_def placement_text_def show_number_def show_int_def hat_item_def)
qed

lemma generateLayeredOutfit_request:
  assumes "fileToPart env baseImage = Inr part"
    and "outfit_loop env items ([], [], 0) = Inr (gs, ps, n)"
    and "ps \<noteq> []"
  shows "generateLayeredOutfit env baseImage items
     = and_then (send env (outfit_request part gs ps))
         (\<lambda>response. handleApiResponse response ''layered-outfit'')"
  using assms by (simp add: generateLayeredOutfit_def and_then_Inr)

text \<open>
  C3 (as amended). In layered-outfit synthesis the instructions of the request come from
  exactly the items that have a placement point and a value of the kind their source mode
  asks for (a file for an upload, a text that is not blank for a description), one
  instruction for each, in the order of the items, and these instructions are the ones
  of the request that is sent; an item without a value or without a placement point adds
  none. The loop over the items ends normally whenever the garment
  files of these items can be encoded. Provided the base image can be encoded, the
  operation fails with the no-valid-items error if and only if no item is of this kind.
\<close>

theorem generateLayeredOutfit_valid_items:
  "(outfit_loop env items ([], [], 0) = Inr (gs, ps, n) \<longrightarrow>
      ps = instructions_from env 0 (filter contributes_instruction items)
      \<and> length ps = length (filter contributes_instruction items)
      \<and> (fileToPart env baseImage = Inr part \<and> ps \<noteq> [] \<longrightarrow>
           generateLayeredOutfit env baseImage items
             = and_then (send env (outfit_request part gs ps))
                 (\<lambda>response. handleApiResponse response ''layered-outfit'')))
   \<and> ((\<forall>item f. item \<in> set items \<and> contributes_instruction item
          \<and> item_source item = Upload \<and> item_value item = FileValue f
          \<longrightarrow> (\<exists>p. fileToPart env f = Inr p))
       \<longrightarrow> (\<exists>gs' ps' n'. outfit_loop env items ([], [], 0) = Inr (gs', ps', n')))
   \<and> (fileToPart env baseImage = Inr part \<longrightarrow>
        (generateLayeredOutfit env baseImage items = Inl NoValidItemsError
           \<longleftrightarrow> filter contributes_instruction items = []))
   \<and> (item_hotspot item = None \<or> item_value item = NullValue
        \<longrightarrow> \<not> contributes_instruction item)"
proof (intro conjI impI)
  assume loop: "outfit_loop env items ([], [], 0) = Inr (gs, ps, n)"
  then show ps: "ps = instructions_from env 0 (filter contributes_instruction items)"
    using outfit_loop_instructions [of env items "[]" "[]" 0 gs ps n] by simp
  then show "length ps = length (filter contributes_instruction items)"
    by (simp add: instructions_from_length)
  assume "fileToPart env baseImage = Inr part \<and> ps \<noteq> []"
  with loop show "generateLayeredOutfit env baseImage items
      = and_then (send env (outfit_request part gs ps))
          (\<lambda>response. handleApiResponse response ''layered-outfit'')"
    by (simp add: generateLayeredOutfit_request)
next
  assume "\<forall>item f. item \<in> set items \<and> contributes_instruction item
          \<and> item_source item = Upload \<and> item_value item = FileValue f
          \<longrightarrow> (\<exists>p. fileToPart env f = Inr p)"
  then show "\<exists>gs' ps' n'. outfit_loop env items ([], [], 0) = Inr (gs', ps', n')"
    by (rule outfit_loop_returns)
next
  assume "fileToPart env baseImage = Inr part"
  then show "generateLayeredOutfit env baseImage items = Inl NoValidItemsError
           \<longleftrightarrow> filter contributes_instruction items = []"
    by (rule NoValidItems_iff)
next
  assume "item_hotspot item = None \<or> item_value item = NullValue"
  then show "\<not> contributes_instruction item"
    by (auto simp: contributes_instruction_def truthy_string_def)
qed

theorem generateLayeredOutfit_valid_items_witness:
  "outfit_loop sample_env mixed_items ([], [], 0)
     = Inr ([\<lparr>mimeType = ''image/png'', data = ''Qg==''\<rparr>],
            [prompt_instruction sample_env hat_item ''a red hat'' (Hotspot (Finite 600) (Finite 800)),
             upload_instruction sample_env jacket_item 1 (Hotspot (Finite 300) (Finite 400))], 1)
   \<and> filter contributes_instruction mixed_items = [hat_item, jacket_item]
   \<and> instructions_from sample_env 0 (filter contributes_instruction mixed_items)
        = [prompt_instruction sample_env hat_item ''a red hat'' (Hotspot (Finite 600) (Finite 800)),
           upload_instruction sample_env jacket_item 1 (Hotspot (Finite 300) (Finite 400))]
   \<and> fileToPart sample_env photoA = Inr photoA_part
   \<and> generateLayeredOutfit sample_env photoA [unplaced_item, blank_item]
        = Inl NoValidItemsError
   \<and> generateLayeredOutfit sample_env photoA mixed_items \<noteq> Inl NoValidItemsError
   \<and> generateLayeredOutfit sample_env photoA mixed_items = Inr ''data:image/png;base64,Wg==''
   \<and> item_hotspot unplaced_item = None \<and> \<not> contributes_instruction unplaced_item
   \<and> item_value ideographic_item = TextValue [CHR 0xE3, CHR 0x80, CHR 0x80]
   \<and> generateLayeredOutfit sample_env photoA [ideographic_item] = Inl NoValidItemsError"
  using
    generateLayeredOutfit_valid_items
      [where env = sample_env and items = mixed_items and baseImage = photoA
         and part = photoA_part and item = unplaced_item
         and gs = "[\<lparr>mimeType = ''image/png'', data = ''Qg==''\<rparr>]"
         and ps = "[prompt_instruction sample_env hat_item ''a red hat'' (Hotspot (Finite 600) (Finite 800)),
                    upload_instruction sample_env jacket_item 1 (Hotspot (Finite 300) (Finite 400))]"
         and n = 1]
    generateLayeredOutfit_valid_items
      [where env = sample_env and items = "[unplaced_item, blank_item]"
         and baseImage = photoA and part = photoA_part]
    generateLayeredOutfit_valid_items
      [where env = sample_env and items = "[ideographic_item]"
         and baseImage = photoA and part = photoA_part]
    outfit_loop_mixed contributes_samples contributes_ideographic fileToPart_photoA
  by (simp add: mixed_items_def unplaced_item_def send_sample and_then_Inr
      handleApiResponse_image_response ideographic_item_def)

text \<open>
  An item with a blank description and a placement point has both a value and a
  placement point (it passes the filter of the apply action), yet it adds no instruction:
  alone, it makes the operation fail with the no-valid-items error.
\<close>

theorem blank_description_is_excluded:
  "has_value_and_hotspot blank_item
   \<and> item_value blank_item = TextValue ''   ''
   \<and> item_hotspot blank_item = Some (Hotspot (Finite 600) (Finite 800))
   \<and> outfit_loop sample_env [blank_item] ([], [], 0) = Inr ([], [], 0)
   \<and> generateLayeredOutfit sample_env photoA [blank_item] = Inl NoValidItemsError"
proof -
  have "item_value blank_item = TextValue ''   ''
      \<and> item_hotspot blank_item = Some (Hotspot (Finite 600) (Finite 800))"
    by (simp add: blank_item_def)
  moreover have "outfit_loop sample_env [blank_item] ([], [], 0) = Inr ([], [], 0)"
    by (simp add: outfit_step_blank)
  ultimately show ?thesis
    using has_value_and_hotspot_blank generateLayeredOutfit_blank by simp
qed

section \<open>Properties of the refinement of a generated image\<close>

lemma js_get_js_set: "js_get (js_set xs i v) j = (if j = i then Some v else js_get xs j)"
proof (cases "i < length xs")
  case True
  then show ?thesis
    by (simp add: js_get_def js_set_def)
next
  case False
  then show ?thesis
    by (auto simp: js_get_def js_set_def nth_append)
qed

lemma handleRefineRequest_history:
  "history (handleRefineRequest env s p) = history s
   \<and> historyIndex (handleRefineRequest env s p) = historyIndex s"
  by (simp add: handleRefineRequest_def Let_def split: option.splits sum.splits)

lemma handleRefineRequest_ready:
  assumes "variationResults s = Some results"
    and "imageIndex (refinementState s) = Some i"
    and "imageSrc (refinementState s) = Some src"
    and "src \<noteq> []"
    and "\<not> caption_missing (caption (refinementState s))"
    and "js_trim p \<noteq> []"
  shows "handleRefineRequest env s p =
     (case refine_target env src i p of
        Inr refinedImageUrl \<Rightarrow>
          s\<lparr>error := None,
            variationResults :=
              Some (results\<lparr>images := js_set (images results) i refinedImageUrl\<rparr>),
            refinementState :=
              (if \<not> isRefining s then closed_refinement else refinementState s),
            isRefining := False\<rparr>
      | Inl err \<Rightarrow>
          s\<lparr>error := Some (''Failed to refine the image. '' @ error_message err),
            isRefining := False\<rparr>)"
  using assms
  by (cases "refine_target env src i p") (simp_all add: handleRefineRequest_def Let_def)

lemma fileToPart_remote_irrelevant:
  "fileToPart (env\<lparr>generateContent := g\<rparr>) f = fileToPart env f"
  by (simp add: fileToPart_def)

lemma dataURLtoFile_remote_irrelevant:
  "dataURLtoFile (env\<lparr>generateContent := g\<rparr>) u n = dataURLtoFile env u n"
  by (simp add: dataURLtoFile_def)

lemma generateVariations_three:
  "generateVariations sample_env
     \<lparr>file_name = n, file_type = ''image/png'', file_data = ''Wg==''\<rparr>
     [''a beach'', ''a cafe'', ''a park'']
     = Inr [''data:image/png;base64,Wg=='', ''data:image/png;base64,Wg=='',
            ''data:image/png;base64,Wg=='']"
  by (simp add: generateVariations_Inr_iff fileToPart_generated variation_result_sample)

lemma gallery_state_eval:
  "variationResults gallery_state
     = Some \<lparr>images = [Some ''data:image/png;base64,Wg=='', Some ''data:image/png;base64,Wg=='',
                       Some ''data:image/png;base64,Wg==''],
             captions = fallback_captions\<rparr>
   \<and> imageIndex (refinementState gallery_state) = Some 1
   \<and> imageSrc (refinementState gallery_state) = Some ''data:image/png;base64,Wg==''
   \<and> \<not> caption_missing (caption (refinementState gallery_state))
   \<and> history gallery_state = history applied_state
   \<and> historyIndex gallery_state = 1"
proof -
  have gen: "handleGenerate sample_env applied_state (Contexts [''a beach'', ''a cafe'', ''a park''])
      = finish_loading
          (applied_state\<lparr>error := None,
             variationResults :=
               Some \<lparr>images = [Some ''data:image/png;base64,Wg=='',
                               Some ''data:image/png;base64,Wg=='',
                               Some ''data:image/png;base64,Wg==''],
                     captions = fallback_captions\<rparr>\<rparr>)"
    using applied_state_eval
    by (simp add: handleGenerate_def currentImage_def js_index_def generateVariations_three
        and_then_Inr generateCaptions_sample Let_def)
  show ?thesis
    using applied_state_eval
    by (simp add: gallery_state_def gen handleOpenRefinementModal_def finish_loading_def
        js_get_def fallback_captions_def caption_missing_def)
qed

lemma refine_target_refining:
  "refine_target refining_env ''data:image/png;base64,Wg=='' i ''smile''
     = Inr ''data:image/png;base64,Ug==''"
proof -
  have "handleApiResponse refined_response c = Inr ''data:image/png;base64,Ug==''" for c
    by (simp add: handleApiResponse_def interpretUnblocked_def imagePartFromResponse_def
        refined_response_def image_part_def)
  moreover have "send refining_env r = Inr refined_response" for r
    by (simp add: send_def refining_env_def)
  ultimately show ?thesis
    by (simp add: refine_target_def refineImage_def refining_env_def
        dataURLtoFile_remote_irrelevant fileToPart_remote_irrelevant dataURLtoFile_generated
        fileToPart_generated and_then_Inr)
qed

lemma refine_target_offline:
  "refine_target offline_env ''data:image/png;base64,Wg=='' i ''smile''
     = Inl (RemoteError (JsError ''network error''))"
proof -
  have "send offline_env r = Inl (RemoteError (JsError ''network error''))" for r
    by (simp add: send_def offline_env_def)
  then show ?thesis
    by (simp add: refine_target_def refineImage_def offline_env_def
        dataURLtoFile_remote_irrelevant fileToPart_remote_irrelevant dataURLtoFile_generated
        fileToPart_generated and_then_Inr and_then_Inl)
qed

text \<open>
  C10. With a refinement dialog open on index \<open>i\<close> of a result set and a non-blank
  instruction, a successful refinement stores the refined image at index \<open>i\<close> of the
  image list and changes no other index; the captions are the same, and so are the
  history and its cursor. When the refinement fails, the result set is the same. The
  history and the cursor are never touched by a refinement request.
\<close>

theorem handleRefineRequest_replaces_only_target:
  "(variationResults s = Some results \<and> imageIndex (refinementState s) = Some i
     \<and> imageSrc (refinementState s) = Some src \<and> src \<noteq> []
     \<and> \<not> caption_missing (caption (refinementState s)) \<and> js_trim p \<noteq> []
    \<longrightarrow>
      (refine_target env src i p = Inr url \<longrightarrow>
         variationResults (handleRefineRequest env s p)
           = Some \<lparr>images = js_set (images results) i url, captions = captions results\<rparr>
         \<and> js_get (js_set (images results) i url) i = Some url
         \<and> (\<forall>j. j \<noteq> i \<longrightarrow>
               js_get (js_set (images results) i url) j = js_get (images results) j)
         \<and> (i < length (images results) \<longrightarrow>
               js_set (images results) i url = (images results)[i := Some url]))
      \<and> (refine_target env src i p = Inl e \<longrightarrow>
           variationResults (handleRefineRequest env s p) = variationResults s))
   \<and> history (handleRefineRequest env s p) = history s
   \<and> historyIndex (handleRefineRequest env s p) = historyIndex s"
proof (intro conjI impI allI)
  assume h: "variationResults s = Some results \<and> imageIndex (refinementState s) = Some i
     \<and> imageSrc (refinementState s) = Some src \<and> src \<noteq> []
     \<and> \<not> caption_missing (caption (refinementState s)) \<and> js_trim p \<noteq> []"
  then have step: "handleRefineRequest env s p =
     (case refine_target env src i p of
        Inr refinedImageUrl \<Rightarrow>
          s\<lparr>error := None,
            variationResults :=
              Some (results\<lparr>images := js_set (images results) i refinedImageUrl\<rparr>),
            refinementState :=
              (if \<not> isRefining s then closed_refinement else refinementState s),
            isRefining := False\<rparr>
      | Inl err \<Rightarrow>
          s\<lparr>error := Some (''Failed to refine the image. '' @ error_message err),
            isRefining := False\<rparr>)"
    by (simp add: handleRefineRequest_ready)
  {
    assume "refine_target env src i p = Inr url"
    then show "variationResults (handleRefineRequest env s p)
        = Some \<lparr>images = js_set (images results) i url, captions = captions results\<rparr>"
      by (simp add: step)
  next
    assume "refine_target env src i p = Inl e"
    with h show "variationResults (handleRefineRequest env s p) = variationResults s"
      by (simp add: step)
  }
next
  show "js_get (js_set (images results) i url) i = Some url"
    by (simp add: js_get_js_set)
next
  fix j
  assume "j \<noteq> i"
  then show "js_get (js_set (images results) i url) j = js_get (images results) j"
    by (simp add: js_get_js_set)
next
  assume "i < length (images results)"
  then show "js_set (images results) i url = (images results)[i := Some url]"
    by (simp add: js_set_def)
next
  show "history (handleRefineRequest env s p) = history s"
    by (simp add: handleRefineRequest_history)
next
  show "historyIndex (handleRefineRequest env s p) = historyIndex s"
    by (simp add: handleRefineRequest_history)
qed

theorem handleRefineRequest_replaces_only_target_witness:
  "variationResults (handleRefineRequest refining_env gallery_state ''smile'')
     = Some \<lparr>images = [Some ''data:image/png;base64,Wg=='', Some ''data:image/png;base64,Ug=='',
                       Some ''data:image/png;base64,Wg==''],
             captions = fallback_captions\<rparr>
   \<and> variationResults (handleRefineRequest offline_env gallery_state ''smile'')
        = variationResults gallery_state
   \<and> history (handleRefineRequest refining_env gallery_state ''smile'') = history gallery_state
   \<and> historyIndex (handleRefineRequest refining_env gallery_state ''smile'') = 1"
proof -
  have trim: "js_trim ''smile'' \<noteq> []"
    by (simp add: js_trim_smile)
  note inst = handleRefineRequest_replaces_only_target
      [where s = gallery_state and i = 1 and src = "''data:image/png;base64,Wg==''"
         and p = "''smile''"
         and results = "\<lparr>images = [Some ''data:image/png;base64,Wg=='',
                                    Some ''data:image/png;base64,Wg=='',
                                    Some ''data:image/png;base64,Wg==''],
                          captions = fallback_captions\<rparr>"]
  show ?thesis
    using inst [where env = refining_env and url = "''data:image/png;base64,Ug==''"]
      inst [where env = offline_env and e = "RemoteError (JsError ''network error'')"]
      gallery_state_eval trim refine_target_refining [of 1] refine_target_offline [of 1]
    by (simp add: js_set_def)
qed

end
